(* ===== verification/Prelude.thy ===== *)
theory Prelude
  imports Complex_Main
begin

text \<open>
  Shared vocabulary of the development: the names of the model's basic types, Python's
  truthiness of an optional string, the named collections the component theories fill,
  and generic list lemmas used by the trace proofs of several components.
\<close>

named_theorems status_simps "record-level rewriting of status snapshots and status updates"
named_theorems fs_simps "equations of the work-area file-system model"
named_theorems gui_simps "equations of the GUI display model"

type_synonym path = string

text \<open>
  Python's truth value of an \<open>Optional[str]\<close>: \<open>None\<close> and the empty string are false.
  The frontend tests \<open>elif status.error_message:\<close> with exactly this rule.
\<close>

fun py_truthy :: "string option \<Rightarrow> bool" where
  "py_truthy None = False"
| "py_truthy (Some s) = (s \<noteq> [])"

lemma py_truthy_iff: "py_truthy m \<longleftrightarrow> (\<exists>s. m = Some s \<and> s \<noteq> [])"
  by (cases m) auto

text \<open>Non-decreasing sequences are \<open>sorted\<close> lists of Main; two facts about snoc.\<close>

lemma sorted_snoc_iff: "sorted (xs @ [x]) \<longleftrightarrow> sorted xs \<and> (\<forall>y\<in>set xs. y \<le> x)"
  by (auto simp: sorted_append)

lemma sorted_snocI: "sorted xs \<Longrightarrow> (\<forall>y\<in>set xs. y \<le> x) \<Longrightarrow> sorted (xs @ [x])"
  by (simp add: sorted_snoc_iff)

end
