(* ===== verification/Status.thy ===== *)
theory Status
  imports Prelude
begin

text \<open>
  The status record of \<open>src/src/backend.py\<close> and the status channel of
  \<open>VideoProcessor\<close>: the dataclass \<open>ProcessingStatus\<close>, the keyword updates of
  \<open>_update_status\<close> (one \<open>setattr\<close> per keyword, in the order given), and the single
  observer slot that \<open>register_status_callback\<close> replaces. Calls of the observer are
  recorded in \<open>delivered\<close>, in order, each with the status value the observer sees when
  it is called; the Python object does not store them, they are the channel's output.
\<close>

record processing_status =
  is_processing :: bool
  progress :: int
  status_message :: string
  error_message :: "string option"

definition default_status :: processing_status where
  "default_status =
     \<lparr>is_processing = False, progress = 0, status_message = [], error_message = None\<rparr>"

text \<open>One keyword argument of \<open>_update_status\<close>: the field it names and its value.\<close>

datatype status_field =
    Set_is_processing bool
  | Set_progress int
  | Set_status_message string
  | Set_error_message "string option"

fun setattr_status :: "processing_status \<Rightarrow> status_field \<Rightarrow> processing_status" where
  "setattr_status s (Set_is_processing b) = s\<lparr>is_processing := b\<rparr>"
| "setattr_status s (Set_progress n) = s\<lparr>progress := n\<rparr>"
| "setattr_status s (Set_status_message m) = s\<lparr>status_message := m\<rparr>"
| "setattr_status s (Set_error_message e) = s\<lparr>error_message := e\<rparr>"

text \<open>\<open>for key, value in kwargs.items(): setattr(self._status, key, value)\<close>\<close>

definition apply_kwargs :: "processing_status \<Rightarrow> status_field list \<Rightarrow> processing_status" where
  "apply_kwargs s kws = fold (\<lambda>kw st. setattr_status st kw) kws s"

record 'obs video_processor =
  vp_status :: processing_status
  vp_callback :: "'obs option"
  delivered :: "('obs \<times> processing_status) list"

definition video_processor_init :: "'obs video_processor" where
  "video_processor_init = \<lparr>vp_status = default_status, vp_callback = None, delivered = []\<rparr>"

definition register_status_callback :: "'obs \<Rightarrow> 'obs video_processor \<Rightarrow> 'obs video_processor" where
  "register_status_callback cb vp = vp\<lparr>vp_callback := Some cb\<rparr>"

text \<open>\<open>_update_status\<close>: apply the keywords, then call the observer if one is registered.\<close>

definition update_status :: "status_field list \<Rightarrow> 'obs video_processor \<Rightarrow> 'obs video_processor" where
  "update_status kws vp =
     (let s = apply_kwargs (vp_status vp) kws
      in vp\<lparr>vp_status := s,
            delivered := delivered vp @ (case vp_callback vp of None \<Rightarrow> [] | Some cb \<Rightarrow> [(cb, s)])\<rparr>)"

text \<open>The snapshots the channel has published, whoever received them.\<close>

definition published :: "'obs video_processor \<Rightarrow> processing_status list" where
  "published vp = map snd (delivered vp)"

lemma apply_kwargs_Nil [simp, status_simps]: "apply_kwargs s [] = s"
  by (simp add: apply_kwargs_def)

lemma apply_kwargs_Cons [simp, status_simps]:
  "apply_kwargs s (kw # kws) = apply_kwargs (setattr_status s kw) kws"
  by (simp add: apply_kwargs_def)

lemma update_status_status [simp, status_simps]:
  "vp_status (update_status kws vp) = apply_kwargs (vp_status vp) kws"
  by (simp add: update_status_def Let_def)

lemma update_status_callback [simp, status_simps]:
  "vp_callback (update_status kws vp) = vp_callback vp"
  by (simp add: update_status_def Let_def)

lemma update_status_delivered [status_simps]:
  "delivered (update_status kws vp) =
     delivered vp @ (case vp_callback vp of None \<Rightarrow> []
                     | Some cb \<Rightarrow> [(cb, apply_kwargs (vp_status vp) kws)])"
  by (simp add: update_status_def Let_def)

lemma published_update_status [status_simps]:
  "published (update_status kws vp) =
     published vp @ (if vp_callback vp = None then [] else [apply_kwargs (vp_status vp) kws])"
  by (cases "vp_callback vp") (simp_all add: published_def update_status_delivered)

end
