(* ===== verification/Filesystem.thy ===== *)
theory Filesystem
  imports Prelude
begin

text \<open>
  The scratch work area of \<open>VideoProcessor.amplify_audio\<close>
  (\<open>src/src/backend.py\<close>, lines 40-41, 56, 66 and the \<open>finally\<close> block, lines 94-102).
  Only the path \<open>temp_audio_processing\<close> is modelled: whether something exists there, a
  plain file or a directory, and the entries of that directory. An entry is a file or a
  subdirectory; a file may be held open by a reader, and removing it then fails (the
  Windows behaviour for a file an \<open>AudioFileClip\<close> still reads). The final output files
  are recorded by path. The \<open>os\<close> calls return an \<open>os_error\<close> where Python raises.
  Whether the process may create entries in its working directory (the parent of the work
  area) is the flag \<open>cwd_writable\<close>: the application may be launched from a directory it
  cannot write, and \<open>os.makedirs\<close> then raises \<open>PermissionError\<close>.
\<close>

datatype os_error =
    FileExistsError
  | FileNotFoundError
  | IsADirectoryError
  | NotADirectoryError
  | PermissionError
  | DirectoryNotEmpty

datatype 'c entry = Entry_File (held_open: bool) (contents: 'c) | Entry_Dir

datatype 'c work_node = Plain_File | Directory "(string \<times> 'c entry) list"

record 'c fs =
  work_area :: "'c work_node option"
  output_files :: "(path \<times> 'c) list"
  cwd_writable :: bool

definition temp_dir :: path where
  "temp_dir = ''temp_audio_processing''"

text \<open>\<open>os.path.join(temp_dir, name)\<close>\<close>

definition temp_path :: "string \<Rightarrow> path" where
  "temp_path name = temp_dir @ ''/'' @ name"

text \<open>\<open>os.makedirs(temp_dir, exist_ok=True)\<close>: an existing directory is accepted, an
  existing file is not, and a missing directory is created only where the working
  directory is writable.\<close>

definition makedirs_exist_ok :: "'c fs \<Rightarrow> os_error + 'c fs" where
  "makedirs_exist_ok w =
     (case work_area w of
        None \<Rightarrow>
          if cwd_writable w then Inr (w\<lparr>work_area := Some (Directory [])\<rparr>)
          else Inl PermissionError
      | Some (Directory es) \<Rightarrow> Inr w
      | Some Plain_File \<Rightarrow> Inl FileExistsError)"

definition path_exists :: "'c fs \<Rightarrow> bool" where
  "path_exists w \<longleftrightarrow> work_area w \<noteq> None"

definition listdir :: "'c fs \<Rightarrow> os_error + string list" where
  "listdir w =
     (case work_area w of
        None \<Rightarrow> Inl FileNotFoundError
      | Some Plain_File \<Rightarrow> Inl NotADirectoryError
      | Some (Directory es) \<Rightarrow> Inr (map fst es))"

text \<open>Writing \<open>temp_dir/name\<close> creates or replaces that entry as a file.\<close>

definition put_entry :: "'k \<Rightarrow> 'e \<Rightarrow> ('k \<times> 'e) list \<Rightarrow> ('k \<times> 'e) list" where
  "put_entry n e es = filter (\<lambda>(m, _). m \<noteq> n) es @ [(n, e)]"

definition write_work_file :: "string \<Rightarrow> 'c \<Rightarrow> 'c fs \<Rightarrow> os_error + 'c fs" where
  "write_work_file n c w =
     (case work_area w of
        None \<Rightarrow> Inl FileNotFoundError
      | Some Plain_File \<Rightarrow> Inl NotADirectoryError
      | Some (Directory es) \<Rightarrow>
          (case map_of es n of
             Some Entry_Dir \<Rightarrow> Inl IsADirectoryError
           | _ \<Rightarrow> Inr (w\<lparr>work_area := Some (Directory (put_entry n (Entry_File False c) es))\<rparr>)))"

text \<open>Reading \<open>temp_dir/name\<close> back, as the decoders do when they open it.\<close>

definition read_work_file :: "string \<Rightarrow> 'c fs \<Rightarrow> os_error + 'c" where
  "read_work_file n w =
     (case work_area w of
        None \<Rightarrow> Inl FileNotFoundError
      | Some Plain_File \<Rightarrow> Inl NotADirectoryError
      | Some (Directory es) \<Rightarrow>
          (case map_of es n of
             None \<Rightarrow> Inl FileNotFoundError
           | Some Entry_Dir \<Rightarrow> Inl IsADirectoryError
           | Some (Entry_File held c) \<Rightarrow> Inr c))"

text \<open>A reader that keeps \<open>temp_dir/name\<close> open (an \<open>AudioFileClip\<close> that is never
  closed) marks the entry as held.\<close>

definition hold_work_file :: "string \<Rightarrow> 'c fs \<Rightarrow> 'c fs" where
  "hold_work_file n w =
     (case work_area w of
        Some (Directory es) \<Rightarrow>
          (case map_of es n of
             Some (Entry_File held c) \<Rightarrow>
               w\<lparr>work_area := Some (Directory (map (\<lambda>(m, e). if m = n then (m, Entry_File True c) else (m, e)) es))\<rparr>
           | _ \<Rightarrow> w)
      | _ \<Rightarrow> w)"

text \<open>Writing the final output file at a caller-supplied path, outside the work area.\<close>

definition write_output :: "path \<Rightarrow> 'c \<Rightarrow> 'c fs \<Rightarrow> 'c fs" where
  "write_output p c w = w\<lparr>output_files := put_entry p c (output_files w)\<rparr>"

fun removable :: "'c entry \<Rightarrow> bool" where
  "removable (Entry_File held c) = (\<not> held)"
| "removable Entry_Dir = False"

text \<open>\<open>os.remove(os.path.join(temp_dir, name))\<close>\<close>

definition os_remove :: "string \<Rightarrow> 'c fs \<Rightarrow> os_error + 'c fs" where
  "os_remove n w =
     (case work_area w of
        None \<Rightarrow> Inl FileNotFoundError
      | Some Plain_File \<Rightarrow> Inl NotADirectoryError
      | Some (Directory es) \<Rightarrow>
          (case map_of es n of
             None \<Rightarrow> Inl FileNotFoundError
           | Some Entry_Dir \<Rightarrow> Inl IsADirectoryError
           | Some (Entry_File held c) \<Rightarrow>
               if held then Inl PermissionError
               else Inr (w\<lparr>work_area := Some (Directory (filter (\<lambda>(m, _). m \<noteq> n) es))\<rparr>)))"

text \<open>\<open>os.rmdir(temp_dir)\<close>: only an empty directory is removed.\<close>

definition os_rmdir :: "'c fs \<Rightarrow> os_error + 'c fs" where
  "os_rmdir w =
     (case work_area w of
        None \<Rightarrow> Inl FileNotFoundError
      | Some Plain_File \<Rightarrow> Inl NotADirectoryError
      | Some (Directory []) \<Rightarrow> Inr (w\<lparr>work_area := None\<rparr>)
      | Some (Directory (_ # _)) \<Rightarrow> Inl DirectoryNotEmpty)"

text \<open>The loop \<open>for file in os.listdir(temp_dir): try: os.remove(...) except: pass\<close>.\<close>

fun remove_listed :: "string list \<Rightarrow> 'c fs \<Rightarrow> 'c fs" where
  "remove_listed [] w = w"
| "remove_listed (n # ns) w =
     remove_listed ns (case os_remove n w of Inl _ \<Rightarrow> w | Inr w' \<Rightarrow> w')"

text \<open>The whole \<open>finally\<close> block; \<open>Some e\<close> is an exception the block itself raises.\<close>

definition cleanup_work_area :: "'c fs \<Rightarrow> os_error option \<times> 'c fs" where
  "cleanup_work_area w =
     (if path_exists w then
        (case listdir w of
           Inl e \<Rightarrow> (Some e, w)
         | Inr names \<Rightarrow>
             (let w1 = remove_listed names w
              in case os_rmdir w1 of Inl e \<Rightarrow> (Some e, w1) | Inr w2 \<Rightarrow> (None, w2)))
      else (None, w))"

text \<open>The file system before any job: nothing at \<open>temp_audio_processing\<close>, no output, launched
  from a writable directory.\<close>

definition fs_init :: "'c fs" where
  "fs_init = \<lparr>work_area = None, output_files = [], cwd_writable = True\<rparr>"

text \<open>Well-formedness: the entries of the work area have distinct names.\<close>

definition wf_fs :: "'c fs \<Rightarrow> bool" where
  "wf_fs w \<longleftrightarrow> (case work_area w of Some (Directory es) \<Rightarrow> distinct (map fst es) | _ \<Rightarrow> True)"

subsection \<open>The cleanup loop\<close>

lemma filter_removed_name:
  "distinct (map fst es) \<Longrightarrow>
   filter (\<lambda>(m, e). m \<noteq> n \<or> \<not> removable e) es =
     (case map_of es n of Some e \<Rightarrow> if removable e then filter (\<lambda>(m, _). m \<noteq> n) es else es
      | None \<Rightarrow> es)"
proof (induction es)
  case Nil
  then show ?case by simp
next
  case (Cons p es)
  obtain m e where p: "p = (m, e)" by (cases p)
  show ?case
  proof (cases "m = n")
    case True
    with Cons.prems p have "n \<notin> fst ` set es" by simp
    then have "filter (\<lambda>(m, e). m \<noteq> n \<or> \<not> removable e) es = es"
      and "filter (\<lambda>(m, _). m \<noteq> n) es = es"
      by (auto simp: filter_id_conv image_iff)
    with True p show ?thesis by simp
  next
    case False
    with Cons p show ?thesis by (auto split: option.splits)
  qed
qed

lemma os_remove_swallowed:
  assumes "distinct (map fst es)"
  shows "(case os_remove n (w\<lparr>work_area := Some (Directory es)\<rparr>) of
            Inl _ \<Rightarrow> w\<lparr>work_area := Some (Directory es)\<rparr> | Inr w' \<Rightarrow> w') =
         w\<lparr>work_area := Some (Directory (filter (\<lambda>(m, e). m \<noteq> n \<or> \<not> removable e) es))\<rparr>"
  using filter_removed_name [OF assms, of n]
  by (auto simp: os_remove_def split: option.splits entry.splits)

lemma remove_listed_Directory:
  "distinct (map fst es) \<Longrightarrow>
   remove_listed ns (w\<lparr>work_area := Some (Directory es)\<rparr>) =
     w\<lparr>work_area := Some (Directory (filter (\<lambda>(m, e). m \<notin> set ns \<or> \<not> removable e) es))\<rparr>"
proof (induction ns arbitrary: es)
  case Nil
  then show ?case by (simp add: case_prod_unfold)
next
  case (Cons n ns)
  let ?es' = "filter (\<lambda>(m, e). m \<noteq> n \<or> \<not> removable e) es"
  have d: "distinct (map fst ?es')"
    using Cons.prems by (simp add: distinct_map_filter)
  have "remove_listed (n # ns) (w\<lparr>work_area := Some (Directory es)\<rparr>) =
        remove_listed ns (w\<lparr>work_area := Some (Directory ?es')\<rparr>)"
    by (simp only: remove_listed.simps os_remove_swallowed [OF Cons.prems])
  also have "\<dots> = w\<lparr>work_area := Some (Directory (filter (\<lambda>(m, e). m \<notin> set ns \<or> \<not> removable e) ?es'))\<rparr>"
    by (rule Cons.IH [OF d])
  also have "filter (\<lambda>(m, e). m \<notin> set ns \<or> \<not> removable e) ?es' =
             filter (\<lambda>(m, e). m \<notin> set (n # ns) \<or> \<not> removable e) es"
    by (simp add: filter_filter case_prod_unfold) (rule filter_cong, auto)
  finally show ?case .
qed

lemma cleanup_work_area_Directory:
  assumes "work_area w = Some (Directory es)" and "distinct (map fst es)"
  shows "cleanup_work_area w =
    (if filter (\<lambda>(_, e). \<not> removable e) es = [] then (None, w\<lparr>work_area := None\<rparr>)
     else (Some DirectoryNotEmpty,
           w\<lparr>work_area := Some (Directory (filter (\<lambda>(_, e). \<not> removable e) es))\<rparr>))"
proof -
  have w: "w = w\<lparr>work_area := Some (Directory es)\<rparr>" using assms(1) by simp
  have f: "filter (\<lambda>(m, e). m \<notin> set (map fst es) \<or> \<not> removable e) es =
           filter (\<lambda>(_, e). \<not> removable e) es"
    by (rule filter_cong) (auto simp: image_iff)
  have "remove_listed (map fst es) w =
        w\<lparr>work_area := Some (Directory (filter (\<lambda>(_, e). \<not> removable e) es))\<rparr>"
    using remove_listed_Directory [OF assms(2), where ns = "map fst es" and w = w] w f
    by simp
  then show ?thesis using assms(1)
    by (cases "filter (\<lambda>(_, e). \<not> removable e) es")
       (simp_all add: cleanup_work_area_def path_exists_def listdir_def os_rmdir_def Let_def)
qed


lemma distinct_put_entry:
  "distinct (map fst es) \<Longrightarrow> distinct (map fst (put_entry n e es))"
  by (auto simp: put_entry_def distinct_map_filter)

lemma wf_fs_makedirs: "wf_fs w \<Longrightarrow> makedirs_exist_ok w = Inr w' \<Longrightarrow> wf_fs w'"
  by (auto simp: wf_fs_def makedirs_exist_ok_def split: option.splits work_node.splits if_splits)

lemma wf_fs_write_work_file: "wf_fs w \<Longrightarrow> write_work_file n c w = Inr w' \<Longrightarrow> wf_fs w'"
  by (auto simp: wf_fs_def write_work_file_def distinct_put_entry
      split: option.splits work_node.splits entry.splits)

lemma wf_fs_cleanup: "wf_fs w \<Longrightarrow> wf_fs (snd (cleanup_work_area w))"
  by (auto simp: wf_fs_def cleanup_work_area_Directory distinct_map_filter
      split: option.splits work_node.splits)
    (simp_all add: cleanup_work_area_def path_exists_def listdir_def)

lemma cleanup_work_area_no_area [simp]:
  "work_area w = None \<Longrightarrow> cleanup_work_area w = (None, w)"
  by (simp add: cleanup_work_area_def path_exists_def)

end
