(* ===== verification/Processor.thy ===== *)
theory Processor
  imports Status Filesystem
begin

text \<open>
  \<open>VideoProcessor.amplify_audio\<close> (\<open>src/src/backend.py\<close>, lines 29-102): the in-flight
  guard, the nine status updates of the pipeline, the \<open>try\<close>/\<open>except\<close> that turns
  every exception of the pipeline into an error status, and the \<open>finally\<close> block that
  cleans the work area. The media libraries (moviepy, pydub) are an interface, the record
  \<open>media_lib\<close>: each library call the code makes is one field, with \<open>Inl\<close> the message of
  the exception it raises. File contents of the work area have type \<open>'c\<close>, so the data
  written by one step and read by the next go through the file-system model.
\<close>

record ('v, 'a, 's, 'c) media_lib =
  video_file_clip :: "path \<Rightarrow> string + 'v"
  clip_audio :: "'v \<Rightarrow> 'a option"
  audio_to_file :: "'a \<Rightarrow> string + 'c"
  segment_from_file :: "'c \<Rightarrow> string + 's"
  segment_add_db :: "'s \<Rightarrow> real \<Rightarrow> 's"
  segment_export_wav :: "'s \<Rightarrow> string + 'c"
  audio_file_clip :: "'c \<Rightarrow> string + 'a"
  holds_source_open :: bool
  set_audio :: "'v \<Rightarrow> 'a \<Rightarrow> 'v"
  write_videofile :: "'v \<Rightarrow> string \<Rightarrow> string + 'c"

text \<open>\<open>str(e)\<close> of the \<open>OSError\<close>s that file access inside the \<open>try\<close> block raises
  (the file name that Python appends is left out).\<close>

fun os_error_str :: "os_error \<Rightarrow> string" where
  "os_error_str FileExistsError = ''[Errno 17] File exists''"
| "os_error_str FileNotFoundError = ''[Errno 2] No such file or directory''"
| "os_error_str IsADirectoryError = ''[Errno 21] Is a directory''"
| "os_error_str NotADirectoryError = ''[Errno 20] Not a directory''"
| "os_error_str PermissionError = ''[Errno 13] Permission denied''"
| "os_error_str DirectoryNotEmpty = ''[Errno 39] Directory not empty''"

text \<open>Line 62: the gain in decibels that \<open>audio_segment + (10 * amplification_factor)\<close>
  applies.\<close>

definition gain_db :: "real \<Rightarrow> real" where
  "gain_db factor = 10 * factor"

text \<open>Lines 56-57: \<open>audio.write_audiofile(os.path.join(temp_dir, name))\<close>.\<close>

definition write_audiofile :: "('v, 'a, 's, 'c) media_lib \<Rightarrow> 'a \<Rightarrow> string \<Rightarrow> 'c fs \<Rightarrow> string + 'c fs" where
  "write_audiofile lib audio name w =
     (case audio_to_file lib audio of
        Inl e \<Rightarrow> Inl e
      | Inr c \<Rightarrow> (case write_work_file name c w of Inl oe \<Rightarrow> Inl (os_error_str oe) | Inr w' \<Rightarrow> Inr w'))"

text \<open>Line 61: \<open>AudioSegment.from_file(audio_file)\<close>.\<close>

definition segment_from_work_file :: "('v, 'a, 's, 'c) media_lib \<Rightarrow> string \<Rightarrow> 'c fs \<Rightarrow> string + 's" where
  "segment_from_work_file lib name w =
     (case read_work_file name w of Inl oe \<Rightarrow> Inl (os_error_str oe) | Inr c \<Rightarrow> segment_from_file lib c)"

text \<open>Lines 66-67: \<open>amplified_audio_segment.export(amplified_audio_file, format="wav")\<close>.\<close>

definition export_wav :: "('v, 'a, 's, 'c) media_lib \<Rightarrow> 's \<Rightarrow> string \<Rightarrow> 'c fs \<Rightarrow> string + 'c fs" where
  "export_wav lib seg name w =
     (case segment_export_wav lib seg of
        Inl e \<Rightarrow> Inl e
      | Inr c \<Rightarrow> (case write_work_file name c w of Inl oe \<Rightarrow> Inl (os_error_str oe) | Inr w' \<Rightarrow> Inr w'))"

text \<open>Line 71: \<open>AudioFileClip(amplified_audio_file)\<close>, which keeps its source open.\<close>

definition open_audio_file_clip :: "('v, 'a, 's, 'c) media_lib \<Rightarrow> string \<Rightarrow> 'c fs \<Rightarrow> string + 'a \<times> 'c fs" where
  "open_audio_file_clip lib name w =
     (case read_work_file name w of
        Inl oe \<Rightarrow> Inl (os_error_str oe)
      | Inr c \<Rightarrow>
          (case audio_file_clip lib c of
             Inl e \<Rightarrow> Inl e
           | Inr a \<Rightarrow> Inr (a, if holds_source_open lib then hold_work_file name w else w)))"

text \<open>Line 76: \<open>final_video.write_videofile(output_file, audio_codec='aac')\<close>.\<close>

definition write_videofile_out :: "('v, 'a, 's, 'c) media_lib \<Rightarrow> 'v \<Rightarrow> path \<Rightarrow> 'c fs \<Rightarrow> string + 'c fs" where
  "write_videofile_out lib v out w =
     (case write_videofile lib v ''aac'' of Inl e \<Rightarrow> Inl e | Inr c \<Rightarrow> Inr (write_output out c w))"

text \<open>The status updates the pipeline makes, one per step (lines 45-82).\<close>

definition step_update :: "int \<Rightarrow> string \<Rightarrow> 'obs video_processor \<Rightarrow> 'obs video_processor" where
  "step_update n msg = update_status [Set_progress n, Set_status_message msg]"

definition start_fields :: "status_field list" where
  "start_fields = [Set_is_processing True, Set_progress 0,
                   Set_status_message ''Starting processing...'', Set_error_message None]"

definition complete_fields :: "status_field list" where
  "complete_fields = [Set_is_processing False, Set_progress 100,
                      Set_status_message ''Processing complete!'']"

definition error_fields :: "string \<Rightarrow> status_field list" where
  "error_fields msg = [Set_is_processing False, Set_progress 0,
                       Set_status_message ''Error occurred'', Set_error_message (Some msg)]"

text \<open>The \<open>try\<close> block, lines 43-83: \<open>Inl msg\<close> is the exception it raises, \<open>str(e)\<close>.\<close>

definition amplify_try ::
  "('v, 'a, 's, 'c) media_lib \<Rightarrow> path \<Rightarrow> path \<Rightarrow> real \<Rightarrow> 'obs video_processor \<Rightarrow> 'c fs \<Rightarrow>
   (string + unit) \<times> 'obs video_processor \<times> 'c fs" where
  "amplify_try lib input_file output_file factor vp0 w0 =
    (let vp1 = step_update 10 ''Loading video file...'' vp0 in
     case video_file_clip lib input_file of Inl e \<Rightarrow> (Inl e, vp1, w0) | Inr video \<Rightarrow>
    (let vp2 = step_update 20 ''Extracting audio...'' vp1 in
     case clip_audio lib video of None \<Rightarrow> (Inl ''No audio found in input video'', vp2, w0)
     | Some audio \<Rightarrow>
    (let vp3 = step_update 30 ''Processing audio...'' vp2 in
     case write_audiofile lib audio ''temp_audio.wav'' w0 of Inl e \<Rightarrow> (Inl e, vp3, w0) | Inr w1 \<Rightarrow>
    (let vp4 = step_update 50 ''Amplifying audio...'' vp3 in
     case segment_from_work_file lib ''temp_audio.wav'' w1 of Inl e \<Rightarrow> (Inl e, vp4, w1) | Inr seg \<Rightarrow>
    (let amplified = segment_add_db lib seg (gain_db factor);
         vp5 = step_update 70 ''Exporting amplified audio...'' vp4 in
     case export_wav lib amplified ''amplified_audio.wav'' w1 of Inl e \<Rightarrow> (Inl e, vp5, w1) | Inr w2 \<Rightarrow>
    (let vp6 = step_update 80 ''Combining audio with video...'' vp5 in
     case open_audio_file_clip lib ''amplified_audio.wav'' w2 of Inl e \<Rightarrow> (Inl e, vp6, w2)
     | Inr (amplified_audio, w3) \<Rightarrow>
    (let final_video = set_audio lib video amplified_audio;
         vp7 = step_update 90 ''Saving final video...'' vp6 in
     case write_videofile_out lib final_video output_file w3 of Inl e \<Rightarrow> (Inl e, vp7, w3)
     | Inr w4 \<Rightarrow> (Inr (), update_status complete_fields vp7, w4))))))))"

text \<open>
  The whole method. The result is \<open>Inr b\<close> when it returns \<open>b\<close> and \<open>Inl e\<close> when an
  \<open>OSError\<close> escapes it: from \<open>os.makedirs\<close>, which runs before the \<open>try\<close>, or from
  \<open>os.rmdir\<close> in the \<open>finally\<close> block, whose exception replaces the return value.
\<close>

definition amplify_audio ::
  "('v, 'a, 's, 'c) media_lib \<Rightarrow> path \<Rightarrow> path \<Rightarrow> real \<Rightarrow> 'obs video_processor \<Rightarrow> 'c fs \<Rightarrow>
   (os_error + bool) \<times> 'obs video_processor \<times> 'c fs" where
  "amplify_audio lib input_file output_file factor vp w =
    (if is_processing (vp_status vp) then (Inr False, vp, w)
     else
       (let vp1 = update_status start_fields vp in
        case makedirs_exist_ok w of
          Inl e \<Rightarrow> (Inl e, vp1, w)
        | Inr w1 \<Rightarrow>
            (case amplify_try lib input_file output_file factor vp1 w1 of
               (r, vp2, w2) \<Rightarrow>
                 (let (ok, vp3) = (case r of Inr _ \<Rightarrow> (True, vp2)
                                   | Inl msg \<Rightarrow> (False, update_status (error_fields msg) vp2))
                  in case cleanup_work_area w2 of
                       (None, w3) \<Rightarrow> (Inr ok, vp3, w3)
                     | (Some e, w3) \<Rightarrow> (Inl e, vp3, w3)))))"

text \<open>The seven progress steps of the \<open>try\<close> block as data, and the first \<open>k\<close> of them
  applied to a processor; the snapshots published between two processor states.\<close>

definition pipeline_steps :: "(int \<times> string) list" where
  "pipeline_steps =
     [(10, ''Loading video file...''), (20, ''Extracting audio...''),
      (30, ''Processing audio...''), (50, ''Amplifying audio...''),
      (70, ''Exporting amplified audio...''), (80, ''Combining audio with video...''),
      (90, ''Saving final video...'')]"

definition run_steps :: "nat \<Rightarrow> 'obs video_processor \<Rightarrow> 'obs video_processor" where
  "run_steps k vp = fold (\<lambda>(n, m). step_update n m) (take k pipeline_steps) vp"

definition new_published :: "'obs video_processor \<Rightarrow> 'obs video_processor \<Rightarrow> processing_status list" where
  "new_published vp vp' = drop (length (published vp)) (published vp')"

text \<open>The snapshots a job publishes while in flight, when it has passed \<open>k\<close> steps.\<close>

definition running_snapshots :: "nat \<Rightarrow> processing_status list" where
  "running_snapshots k =
     map (\<lambda>(n, m). \<lparr>is_processing = True, progress = n, status_message = m, error_message = None\<rparr>)
       ((0, ''Starting processing...'') # take k pipeline_steps)"

text \<open>Files of the work area hold nothing but their data; \<open>clean_area\<close> says every
  entry of an existing work directory can be removed.\<close>

definition clean_area :: "'c fs \<Rightarrow> bool" where
  "clean_area w \<longleftrightarrow>
     (case work_area w of
        Some (Directory es) \<Rightarrow> distinct (map fst es) \<and> (\<forall>(n, e) \<in> set es. removable e)
      | _ \<Rightarrow> False)"

subsection \<open>A concrete media library\<close>

text \<open>
  An instance of the interface used to evaluate the theorems on concrete inputs:
  audio is a list of sample levels in dBFS, every file holds such a list, adding a gain
  adds it to each level, a clip is its audio track (\<open>None\<close> for a silent clip), and
  only \<open>in.mp4\<close> (with audio) and \<open>silent.mp4\<close> (without) can be opened; opening
  \<open>broken.mp4\<close> raises an exception whose text is empty. The flag says
  whether \<open>AudioFileClip\<close> keeps its source file open.
\<close>

definition demo_lib :: "bool \<Rightarrow> (real list option, real list, real list, real list) media_lib" where
  "demo_lib held =
     \<lparr>video_file_clip = (\<lambda>p. if p = ''in.mp4'' then Inr (Some [-20, -20])
                             else if p = ''silent.mp4'' then Inr None
                             else if p = ''broken.mp4'' then Inl []
                             else Inl ''[Errno 2] No such file or directory''),
      clip_audio = id, audio_to_file = Inr, segment_from_file = Inr,
      segment_add_db = (\<lambda>s d. map (\<lambda>x. x + d) s), segment_export_wav = Inr,
      audio_file_clip = Inr, holds_source_open = held, set_audio = (\<lambda>v a. Some a),
      write_videofile = (\<lambda>v codec. case v of Some a \<Rightarrow> Inr a | None \<Rightarrow> Inl ''no audio'')\<rparr>"

definition demo_vp :: "nat video_processor" where
  "demo_vp = register_status_callback 0 video_processor_init"


subsection \<open>Shape of a run\<close>

lemma amplify_try_shape:
  assumes "amplify_try lib inp out f vp w = (r, vp', w')"
  shows "(r \<noteq> Inr () \<and> vp' \<in> set (map (\<lambda>k. run_steps k vp) [1..<8]))
       \<or> (r = Inr () \<and> vp' = update_status complete_fields (run_steps 7 vp))"
  using assms
  by (auto simp: amplify_try_def run_steps_def pipeline_steps_def upt_rec Let_def
        split: sum.splits option.splits prod.splits)

lemma step_update_status [simp]:
  "vp_status (step_update n m vp) = (vp_status vp)\<lparr>progress := n, status_message := m\<rparr>"
  by (simp add: step_update_def)

lemma step_update_callback [simp]: "vp_callback (step_update n m vp) = vp_callback vp"
  by (simp add: step_update_def)

lemma fold_steps_callback [simp]:
  "vp_callback (fold (\<lambda>(n, m). step_update n m) xs vp) = vp_callback vp"
  by (induction xs arbitrary: vp) auto

lemma fold_steps_status:
  "vp_status (fold (\<lambda>(n, m). step_update n m) xs vp) =
     (if xs = [] then vp_status vp
      else (vp_status vp)\<lparr>progress := fst (last xs), status_message := snd (last xs)\<rparr>)"
  by (induction xs arbitrary: vp) auto

lemma amplify_audio_run:
  assumes "\<not> is_processing (vp_status vp)" and "makedirs_exist_ok w = Inr w1"
    and "amplify_try lib inp out f (update_status start_fields vp) w1 = (r, vp2, w2)"
  shows "amplify_audio lib inp out f vp w =
     ((case fst (cleanup_work_area w2) of None \<Rightarrow> Inr (r = Inr ()) | Some e \<Rightarrow> Inl e),
      (case r of Inr _ \<Rightarrow> vp2 | Inl msg \<Rightarrow> update_status (error_fields msg) vp2),
      snd (cleanup_work_area w2))"
proof -
  obtain c w3 where cl: "cleanup_work_area w2 = (c, w3)" by (cases "cleanup_work_area w2")
  show ?thesis
  proof (cases r)
    case (Inl msg)
    then show ?thesis using assms cl by (cases c) (simp_all add: amplify_audio_def Let_def)
  next
    case (Inr u)
    then show ?thesis using assms cl by (cases c) (simp_all add: amplify_audio_def Let_def)
  qed
qed

lemma run_steps_callback [simp]: "vp_callback (run_steps k vp) = vp_callback vp"
  by (simp add: run_steps_def)

lemma published_update_status_last:
  "vp_callback vp \<noteq> None \<Longrightarrow>
   published (update_status kws vp) = published vp @ [vp_status (update_status kws vp)]"
  by (simp add: published_update_status)

lemma fold_steps_published_status:
  "vp_callback vp \<noteq> None \<Longrightarrow>
   published (fold (\<lambda>(n, m). step_update n m) xs vp) =
     published vp @ map (\<lambda>(n, m). (vp_status vp)\<lparr>progress := n, status_message := m\<rparr>) xs"
  by (induction xs arbitrary: vp) (auto simp: step_update_def published_update_status)

lemma apply_kwargs_start: "apply_kwargs s start_fields =
   \<lparr>is_processing = True, progress = 0, status_message = ''Starting processing...'', error_message = None\<rparr>"
  by (simp add: start_fields_def)

lemma run_steps_after_start:
  assumes "vp_callback vp \<noteq> None"
  shows "published (run_steps k (update_status start_fields vp)) = published vp @ running_snapshots k"
  using assms fold_steps_published_status [of "update_status start_fields vp" "take k pipeline_steps"]
  by (simp add: run_steps_def running_snapshots_def published_update_status_last apply_kwargs_start
      case_prod_unfold)

lemma new_published_append:
  "published vp' = published vp @ xs \<Longrightarrow> new_published vp vp' = xs"
  by (simp add: new_published_def)

lemma run_steps_is_processing [simp]:
  "is_processing (vp_status (run_steps k vp)) = is_processing (vp_status vp)"
  by (simp add: run_steps_def fold_steps_status)

lemma run_steps_error_message [simp]:
  "error_message (vp_status (run_steps k vp)) = error_message (vp_status vp)"
  by (simp add: run_steps_def fold_steps_status)

lemma amplify_audio_snapshots:
  assumes run: "amplify_audio lib inp out f vp w = (res, vp', w')"
    and idle: "\<not> is_processing (vp_status vp)" and observed: "vp_callback vp \<noteq> None"
    and dir: "makedirs_exist_ok w = Inr wd"
  shows "\<exists>k \<in> {1..7}. new_published vp vp' = running_snapshots k @ [vp_status vp'] \<and>
           (vp_status vp' = \<lparr>is_processing = False, progress = 100,
                             status_message = ''Processing complete!'', error_message = None\<rparr> \<and> k = 7
            \<or> (\<exists>msg. vp_status vp' = \<lparr>is_processing = False, progress = 0,
                              status_message = ''Error occurred'', error_message = Some msg\<rparr>))"
proof -
  let ?vp1 = "update_status start_fields vp"
  obtain r vp2 w2 where body: "amplify_try lib inp out f ?vp1 wd = (r, vp2, w2)"
    by (metis prod_cases3)
  have vp': "vp' = (case r of Inr _ \<Rightarrow> vp2 | Inl msg \<Rightarrow> update_status (error_fields msg) vp2)"
    using amplify_audio_run [OF idle dir body] run by simp
  have cb: "\<And>k. vp_callback (run_steps k ?vp1) \<noteq> None" using observed by simp
  from amplify_try_shape [OF body] show ?thesis
  proof
    assume "r \<noteq> Inr () \<and> vp2 \<in> set (map (\<lambda>k. run_steps k ?vp1) [1..<8])"
    then obtain msg k where r: "r = Inl msg" and k: "k \<in> {1..7}" and v2: "vp2 = run_steps k ?vp1"
      by (cases r) fastforce+
    have vp'e: "vp' = update_status (error_fields msg) vp2" using vp' r by simp
    have "published vp' = published vp @ running_snapshots k @ [vp_status vp']"
      using vp'e v2 published_update_status_last [OF cb] run_steps_after_start [OF observed] by simp
    moreover have "vp_status vp' = \<lparr>is_processing = False, progress = 0,
                     status_message = ''Error occurred'', error_message = Some msg\<rparr>"
      using vp'e by (simp add: error_fields_def)
    ultimately show ?thesis using k by (auto dest: new_published_append)
  next
    assume a: "r = Inr () \<and> vp2 = update_status complete_fields (run_steps 7 ?vp1)"
    then have vp's: "vp' = update_status complete_fields (run_steps 7 ?vp1)" using vp' by simp
    have "published vp' = published vp @ running_snapshots 7 @ [vp_status vp']"
      using vp's published_update_status_last [OF cb] run_steps_after_start [OF observed] by simp
    moreover have "vp_status vp' = \<lparr>is_processing = False, progress = 100,
                     status_message = ''Processing complete!'', error_message = None\<rparr>"
      using vp's by (simp add: complete_fields_def start_fields_def)
    ultimately show ?thesis by (intro bexI [of _ 7]) (auto dest: new_published_append)
  qed
qed

subsection \<open>The work area through a run\<close>

lemma amplify_try_fs_induct:
  assumes run: "amplify_try lib inp out f vp w = (r, vp', w')" and P0: "P w"
    and wr: "\<And>n c w w'. P w \<Longrightarrow> write_work_file n c w = Inr w' \<Longrightarrow> P w'"
    and hd: "\<And>n w. P w \<Longrightarrow> holds_source_open lib \<Longrightarrow> P (hold_work_file n w)"
    and outp: "\<And>p c w. P w \<Longrightarrow> P (write_output p c w)"
  shows "P w'"
proof -
  have wa: "\<And>a n w w'. P w \<Longrightarrow> write_audiofile lib a n w = Inr w' \<Longrightarrow> P w'"
    using wr by (auto simp: write_audiofile_def split: sum.splits)
  have ex: "\<And>s n w w'. P w \<Longrightarrow> export_wav lib s n w = Inr w' \<Longrightarrow> P w'"
    using wr by (auto simp: export_wav_def split: sum.splits)
  have op: "\<And>n w a w'. P w \<Longrightarrow> open_audio_file_clip lib n w = Inr (a, w') \<Longrightarrow> P w'"
    using hd by (auto simp: open_audio_file_clip_def split: sum.splits if_splits)
  have wv: "\<And>v p w w'. P w \<Longrightarrow> write_videofile_out lib v p w = Inr w' \<Longrightarrow> P w'"
    using outp by (auto simp: write_videofile_out_def split: sum.splits)
  show ?thesis
    using run P0
    by (auto simp: amplify_try_def Let_def split: sum.splits option.splits prod.splits
             intro: wa ex op wv) (meson wa ex op wv)+
qed

lemma clean_area_write:
  "clean_area w \<Longrightarrow> write_work_file n c w = Inr w' \<Longrightarrow> clean_area w'"
  by (auto simp: clean_area_def write_work_file_def put_entry_def distinct_map_filter
      split: option.splits work_node.splits entry.splits) blast+

lemma clean_area_output: "clean_area w \<Longrightarrow> clean_area (write_output p c w)"
  by (simp add: clean_area_def write_output_def)

lemma cleanup_clean_area:
  "clean_area w \<Longrightarrow> cleanup_work_area w = (None, w\<lparr>work_area := None\<rparr>)"
  by (auto simp: clean_area_def cleanup_work_area_Directory filter_empty_conv
      split: option.splits work_node.splits)

lemma makedirs_fresh:
  "work_area w = None \<Longrightarrow> cwd_writable w \<Longrightarrow>
   makedirs_exist_ok w = Inr (w\<lparr>work_area := Some (Directory [])\<rparr>)"
  by (simp add: makedirs_exist_ok_def)

subsection \<open>Properties of \<open>amplify_audio\<close>\<close>

lemmas pipeline_defs = amplify_audio_def amplify_try_def makedirs_exist_ok_def write_audiofile_def
  write_work_file_def put_entry_def segment_from_work_file_def read_work_file_def export_wav_def
  open_audio_file_clip_def hold_work_file_def write_videofile_out_def write_output_def gain_db_def
  start_fields_def complete_fields_def error_fields_def cleanup_work_area_def path_exists_def
  listdir_def os_remove_def os_rmdir_def

lemmas demo_simps = demo_lib_def demo_vp_def video_processor_init_def register_status_callback_def
  default_status_def fs_init_def

text \<open>
  C1. During one job the published progress values start at 0, never decrease up to the
  last one, and the last one is the final progress, 100 on success and 0 on failure.
\<close>

theorem amplify_audio_progress_monotone:
  assumes run: "amplify_audio lib inp out f vp w = (res, vp', w')"
    and idle: "\<not> is_processing (vp_status vp)" and observed: "vp_callback vp \<noteq> None"
    and dir: "makedirs_exist_ok w = Inr wd"
  shows "hd (map progress (new_published vp vp')) = 0 \<and>
         sorted (butlast (map progress (new_published vp vp'))) \<and>
         last (map progress (new_published vp vp')) = progress (vp_status vp') \<and>
         progress (vp_status vp') \<in> {0, 100}"
proof -
  obtain k where k: "k \<in> {1..7}"
    and snaps: "new_published vp vp' = running_snapshots k @ [vp_status vp']"
    and fin: "progress (vp_status vp') = 100 \<and> k = 7 \<or> progress (vp_status vp') = 0"
    using amplify_audio_snapshots [OF run idle observed dir] by force
  have ps: "map progress (new_published vp vp') =
              0 # map fst (take k pipeline_steps) @ [progress (vp_status vp')]"
    using snaps by (simp add: running_snapshots_def case_prod_unfold)
  have "sorted (take (Suc k) (0 # map fst pipeline_steps))"
    by (rule sorted_wrt_take) (simp add: pipeline_steps_def)
  then have "sorted (0 # map fst (take k pipeline_steps))"
    by (simp add: take_map)
  with ps fin show ?thesis by (auto simp: butlast_append)
qed

theorem amplify_audio_progress_monotone_witness:
  "\<exists>res vp' w'.
     amplify_audio (demo_lib False) ''in.mp4'' ''out.mp4'' 2 demo_vp fs_init = (res, vp', w') \<and>
     hd (map progress (new_published demo_vp vp')) = 0 \<and>
     sorted (butlast (map progress (new_published demo_vp vp'))) \<and>
     last (map progress (new_published demo_vp vp')) = progress (vp_status vp') \<and>
     progress (vp_status vp') \<in> {0, 100}"
proof -
  obtain res vp' w' where
    run: "amplify_audio (demo_lib False) ''in.mp4'' ''out.mp4'' 2 demo_vp fs_init = (res, vp', w')"
    by (metis prod_cases3)
  have "hd (map progress (new_published demo_vp vp')) = 0 \<and>
        sorted (butlast (map progress (new_published demo_vp vp'))) \<and>
        last (map progress (new_published demo_vp vp')) = progress (vp_status vp') \<and>
        progress (vp_status vp') \<in> {0, 100}"
    by (rule amplify_audio_progress_monotone [OF run])
       (simp_all add: demo_vp_def video_processor_init_def register_status_callback_def
          default_status_def fs_init_def makedirs_exist_ok_def)
  with run show ?thesis by blast
qed

text \<open>
  C2. When every library call succeeds and the work area is absent beforehand, in a
  working directory the process may write (so that \<open>os.makedirs\<close> succeeds), the job
  returns True, writes the output file with the video whose audio is the exported
  segment amplified by \<open>10 * factor\<close> dB, leaves no work area, and ends in the
  status "complete" with progress 100 and no error.
\<close>

theorem amplify_audio_success:
  assumes idle: "\<not> is_processing (vp_status vp)" and fresh: "work_area w = None"
    and writable: "cwd_writable w"
    and load: "video_file_clip lib inp = Inr video"
    and audio: "clip_audio lib video = Some a"
    and wav: "audio_to_file lib a = Inr wav_c"
    and seg: "segment_from_file lib wav_c = Inr s"
    and exp: "segment_export_wav lib (segment_add_db lib s (10 * f)) = Inr amp_c"
    and clip: "audio_file_clip lib amp_c = Inr amp_a"
    and closed: "\<not> holds_source_open lib"
    and enc: "write_videofile lib (set_audio lib video amp_a) ''aac'' = Inr out_c"
  shows "\<exists>vp'. amplify_audio lib inp out f vp w =
                (Inr True, vp', w\<lparr>output_files := put_entry out out_c (output_files w)\<rparr>) \<and>
              vp_status vp' = \<lparr>is_processing = False, progress = 100,
                               status_message = ''Processing complete!'', error_message = None\<rparr>"
  using assms by (simp add: pipeline_defs Let_def)

theorem amplify_audio_success_witness:
  "\<exists>vp'. amplify_audio (demo_lib False) ''in.mp4'' ''out.mp4'' 2 demo_vp fs_init =
          (Inr True, vp', fs_init\<lparr>output_files := put_entry ''out.mp4'' [0, 0] (output_files fs_init)\<rparr>) \<and>
        vp_status vp' = \<lparr>is_processing = False, progress = 100,
                         status_message = ''Processing complete!'', error_message = None\<rparr>"
  by (rule amplify_audio_success [where video = "Some [-20, -20]" and a = "[-20, -20]"
        and wav_c = "[-20, -20]" and s = "[-20, -20]" and amp_c = "[0, 0]" and amp_a = "[0, 0]"])
     (simp_all add: demo_simps)

text \<open>
  C3. A call while a job is in flight returns False and changes nothing: the status,
  the observer slot, the published snapshots and the file system are as before.
\<close>

theorem amplify_audio_in_flight:
  assumes "is_processing (vp_status vp)"
  shows "amplify_audio lib inp out f vp w = (Inr False, vp, w)"
  using assms by (simp add: amplify_audio_def)

theorem amplify_audio_in_flight_witness:
  "amplify_audio (demo_lib False) ''in.mp4'' ''out.mp4'' 2 (update_status start_fields demo_vp) fs_init =
     (Inr False, update_status start_fields demo_vp, fs_init)"
  by (rule amplify_audio_in_flight) (simp add: demo_simps start_fields_def)

text \<open>
  C4. Every job that gets past the guard and the creation of the work area ends out of
  flight, either in the "complete" status (progress 100, no error, result not False) or
  in an "error" status (progress 0, an error message, result not True).
\<close>

theorem amplify_audio_terminal_status:
  assumes run: "amplify_audio lib inp out f vp w = (res, vp', w')"
    and idle: "\<not> is_processing (vp_status vp)" and dir: "makedirs_exist_ok w = Inr wd"
  shows "(vp_status vp' = \<lparr>is_processing = False, progress = 100,
                           status_message = ''Processing complete!'', error_message = None\<rparr>
          \<and> res \<noteq> Inr False)
       \<or> (\<exists>msg. vp_status vp' = \<lparr>is_processing = False, progress = 0,
                                 status_message = ''Error occurred'', error_message = Some msg\<rparr>
          \<and> res \<noteq> Inr True)"
proof -
  let ?vp1 = "update_status start_fields vp"
  obtain r vp2 w2 where body: "amplify_try lib inp out f ?vp1 wd = (r, vp2, w2)"
    by (metis prod_cases3)
  have out: "amplify_audio lib inp out f vp w =
     ((case fst (cleanup_work_area w2) of None \<Rightarrow> Inr (r = Inr ()) | Some e \<Rightarrow> Inl e),
      (case r of Inr _ \<Rightarrow> vp2 | Inl msg \<Rightarrow> update_status (error_fields msg) vp2),
      snd (cleanup_work_area w2))"
    by (rule amplify_audio_run [OF idle dir body])
  from amplify_try_shape [OF body] show ?thesis
  proof
    assume "r \<noteq> Inr () \<and> vp2 \<in> set (map (\<lambda>k. run_steps k ?vp1) [1..<8])"
    then obtain msg where r: "r = Inl msg" by (cases r) auto
    then have "vp_status vp' = \<lparr>is_processing = False, progress = 0,
                 status_message = ''Error occurred'', error_message = Some msg\<rparr>"
      and "res \<noteq> Inr True"
      using out run by (auto simp: error_fields_def split: option.splits)
    then show ?thesis by blast
  next
    assume a: "r = Inr () \<and> vp2 = update_status complete_fields (run_steps 7 ?vp1)"
    then have "vp_status vp' = \<lparr>is_processing = False, progress = 100,
                 status_message = ''Processing complete!'', error_message = None\<rparr>"
      and "res \<noteq> Inr False"
      using out run by (auto simp: complete_fields_def start_fields_def split: option.splits)
    then show ?thesis by blast
  qed
qed

theorem amplify_audio_terminal_status_witness:
  "\<exists>res vp' w'.
     amplify_audio (demo_lib False) ''silent.mp4'' ''out.mp4'' 2 demo_vp fs_init = (res, vp', w') \<and>
     ((vp_status vp' = \<lparr>is_processing = False, progress = 100,
                         status_message = ''Processing complete!'', error_message = None\<rparr>
       \<and> res \<noteq> Inr False)
      \<or> (\<exists>msg. vp_status vp' = \<lparr>is_processing = False, progress = 0,
                               status_message = ''Error occurred'', error_message = Some msg\<rparr>
         \<and> res \<noteq> Inr True))"
proof -
  obtain res vp' w' where
    run: "amplify_audio (demo_lib False) ''silent.mp4'' ''out.mp4'' 2 demo_vp fs_init = (res, vp', w')"
    by (metis prod_cases3)
  have "(vp_status vp' = \<lparr>is_processing = False, progress = 100,
                         status_message = ''Processing complete!'', error_message = None\<rparr>
         \<and> res \<noteq> Inr False)
        \<or> (\<exists>msg. vp_status vp' = \<lparr>is_processing = False, progress = 0,
                               status_message = ''Error occurred'', error_message = Some msg\<rparr>
           \<and> res \<noteq> Inr True)"
    by (rule amplify_audio_terminal_status [OF run])
       (simp_all add: demo_simps makedirs_exist_ok_def)
  with run show ?thesis by blast
qed

text \<open>
  C5. A video without an audio stream makes the job return False with the error
  message "No audio found in input video", and the file system is left as it was:
  no work area and no output file. As in C2, the work area is absent beforehand and the
  working directory writable.
\<close>

theorem amplify_audio_no_audio:
  assumes idle: "\<not> is_processing (vp_status vp)" and fresh: "work_area w = None"
    and writable: "cwd_writable w"
    and load: "video_file_clip lib inp = Inr video"
    and silent: "clip_audio lib video = None"
  shows "\<exists>vp'. amplify_audio lib inp out f vp w = (Inr False, vp', w) \<and>
              vp_status vp' = \<lparr>is_processing = False, progress = 0,
                               status_message = ''Error occurred'',
                               error_message = Some ''No audio found in input video''\<rparr>"
  using assms by (simp add: pipeline_defs Let_def)

theorem amplify_audio_no_audio_witness:
  "\<exists>vp'. amplify_audio (demo_lib False) ''silent.mp4'' ''out.mp4'' 2 demo_vp fs_init =
          (Inr False, vp', fs_init) \<and>
        vp_status vp' = \<lparr>is_processing = False, progress = 0,
                         status_message = ''Error occurred'',
                         error_message = Some ''No audio found in input video''\<rparr>"
  by (rule amplify_audio_no_audio [where video = None]) (simp_all add: demo_simps)

text \<open>
  C6. Let the work area be absent beforehand and no library call keep a file of it open.
  If the working directory is writable, the work area is absent afterwards whatever the
  outcome of the pipeline, and no exception escapes. If it is not, \<open>os.makedirs\<close>
  raises \<open>PermissionError\<close> out of the call, the file system is unchanged, and the
  status is left in flight.
\<close>

theorem amplify_audio_removes_work_area:
  assumes run: "amplify_audio lib inp out f vp w = (res, vp', w')"
    and idle: "\<not> is_processing (vp_status vp)" and fresh: "work_area w = None"
    and closed: "\<not> holds_source_open lib"
  shows "(cwd_writable w \<longrightarrow> work_area w' = None \<and> (\<exists>b. res = Inr b)) \<and>
         (\<not> cwd_writable w \<longrightarrow>
            res = Inl PermissionError \<and> w' = w \<and> is_processing (vp_status vp'))"
proof (cases "cwd_writable w")
  case writable: True
  let ?w1 = "w\<lparr>work_area := Some (Directory [])\<rparr>"
  obtain r vp2 w2 where body: "amplify_try lib inp out f (update_status start_fields vp) ?w1 = (r, vp2, w2)"
    by (metis prod_cases3)
  have "clean_area ?w1" by (simp add: clean_area_def)
  then have "clean_area w2"
    using body closed
    by (rule_tac amplify_try_fs_induct [where P = clean_area]) (auto intro: clean_area_write clean_area_output)
  then have "cleanup_work_area w2 = (None, w2\<lparr>work_area := None\<rparr>)"
    by (rule cleanup_clean_area)
  then show ?thesis
    using amplify_audio_run [OF idle makedirs_fresh [OF fresh writable] body] run writable by auto
next
  case False
  then show ?thesis
    using run idle fresh by (auto simp: amplify_audio_def makedirs_exist_ok_def start_fields_def Let_def)
qed

theorem amplify_audio_removes_work_area_witness:
  "\<exists>res vp' w' res2 vp2 w2.
     amplify_audio (demo_lib False) ''in.mp4'' ''out.mp4'' 2 demo_vp fs_init = (res, vp', w') \<and>
     work_area w' = None \<and> (\<exists>b. res = Inr b) \<and>
     amplify_audio (demo_lib False) ''in.mp4'' ''out.mp4'' 2 demo_vp
       (fs_init\<lparr>cwd_writable := False\<rparr>) = (res2, vp2, w2) \<and>
     res2 = Inl PermissionError \<and> w2 = fs_init\<lparr>cwd_writable := False\<rparr> \<and>
     is_processing (vp_status vp2)"
proof -
  obtain res vp' w' where
    run: "amplify_audio (demo_lib False) ''in.mp4'' ''out.mp4'' 2 demo_vp fs_init = (res, vp', w')"
    by (metis prod_cases3)
  obtain res2 vp2 w2 where
    run2: "amplify_audio (demo_lib False) ''in.mp4'' ''out.mp4'' 2 demo_vp
             (fs_init\<lparr>cwd_writable := False\<rparr>) = (res2, vp2, w2)"
    by (metis prod_cases3)
  have "work_area w' = None \<and> (\<exists>b. res = Inr b)"
    using amplify_audio_removes_work_area [OF run] by (simp add: demo_simps)
  moreover have "res2 = Inl PermissionError \<and> w2 = fs_init\<lparr>cwd_writable := False\<rparr> \<and>
                 is_processing (vp_status vp2)"
    using amplify_audio_removes_work_area [OF run2] by (simp add: demo_simps)
  ultimately show ?thesis using run run2 by blast
qed

text \<open>
  C7. When \<open>AudioFileClip\<close> keeps the amplified file open, the removal of that file
  fails, is swallowed, and then \<open>os.rmdir\<close> raises: the exception escapes the call
  although the status already says "complete", and the work area stays behind.
\<close>

theorem amplify_audio_held_file_escapes:
  assumes idle: "\<not> is_processing (vp_status vp)" and fresh: "work_area w = None"
    and writable: "cwd_writable w"
    and load: "video_file_clip lib inp = Inr video"
    and audio: "clip_audio lib video = Some a"
    and wav: "audio_to_file lib a = Inr wav_c"
    and seg: "segment_from_file lib wav_c = Inr s"
    and exp: "segment_export_wav lib (segment_add_db lib s (10 * f)) = Inr amp_c"
    and clip: "audio_file_clip lib amp_c = Inr amp_a"
    and held: "holds_source_open lib"
    and enc: "write_videofile lib (set_audio lib video amp_a) ''aac'' = Inr out_c"
  shows "\<exists>vp'. amplify_audio lib inp out f vp w =
                (Inl DirectoryNotEmpty, vp',
                 w\<lparr>work_area := Some (Directory [(''amplified_audio.wav'', Entry_File True amp_c)]),
                   output_files := put_entry out out_c (output_files w)\<rparr>) \<and>
              vp_status vp' = \<lparr>is_processing = False, progress = 100,
                               status_message = ''Processing complete!'', error_message = None\<rparr>"
  using assms by (simp add: pipeline_defs Let_def)

theorem amplify_audio_held_file_escapes_witness:
  "\<exists>vp'. amplify_audio (demo_lib True) ''in.mp4'' ''out.mp4'' 2 demo_vp fs_init =
          (Inl DirectoryNotEmpty, vp',
           fs_init\<lparr>work_area := Some (Directory [(''amplified_audio.wav'', Entry_File True [0, 0])]),
                   output_files := put_entry ''out.mp4'' [0, 0] (output_files fs_init)\<rparr>) \<and>
        vp_status vp' = \<lparr>is_processing = False, progress = 100,
                         status_message = ''Processing complete!'', error_message = None\<rparr>"
  by (rule amplify_audio_held_file_escapes [where video = "Some [-20, -20]" and a = "[-20, -20]"
        and wav_c = "[-20, -20]" and s = "[-20, -20]" and amp_a = "[0, 0]"])
     (simp_all add: demo_simps)

text \<open>
  C8. When \<open>temp_audio_processing\<close> exists as a plain file (\<open>FileExistsError\<close>), or
  is missing in a working directory the process cannot write (\<open>PermissionError\<close>),
  \<open>os.makedirs\<close> raises after the status was set in flight and before the \<open>try\<close>;
  the status is never reset, so every later call of \<open>amplify_audio\<close> is rejected.
\<close>

theorem makedirs_failure_blocks_processor:
  assumes idle: "\<not> is_processing (vp_status vp)"
    and blocked: "work_area w = Some Plain_File \<or> work_area w = None \<and> \<not> cwd_writable w"
  shows "amplify_audio lib inp out f vp w =
           (Inl (if work_area w = None then PermissionError else FileExistsError),
            update_status start_fields vp, w) \<and>
         (\<forall>lib' inp' out' f' w'.
            amplify_audio lib' inp' out' f' (update_status start_fields vp) w' =
              (Inr False, update_status start_fields vp, w'))"
  using assms
  by (auto simp: amplify_audio_def makedirs_exist_ok_def start_fields_def Let_def)


theorem makedirs_failure_blocks_processor_witness:
  "amplify_audio (demo_lib False) ''in.mp4'' ''out.mp4'' 2 demo_vp
       \<lparr>work_area = Some Plain_File, output_files = [], cwd_writable = True\<rparr> =
     (Inl FileExistsError, update_status start_fields demo_vp,
      \<lparr>work_area = Some Plain_File, output_files = [], cwd_writable = True\<rparr>) \<and>
   (\<forall>lib' inp' out' f' w'.
      amplify_audio lib' inp' out' f' (update_status start_fields demo_vp) w' =
        (Inr False, update_status start_fields demo_vp, w'))"
  using makedirs_failure_blocks_processor
    [of demo_vp "\<lparr>work_area = Some Plain_File, output_files = [], cwd_writable = True\<rparr>"]
  by (simp add: demo_simps)
end
