(* ===== verification/Paths.thy ===== *)
theory Paths
  imports Prelude
begin

text \<open>
  The output path that \<open>browse_input\<close> (\<open>src/src/frontend.py\<close>, lines 88-99) suggests
  for a chosen input file: \<open>os.path.join(directory, f"{name}_amplified{ext}")\<close> with
  \<open>directory = os.path.dirname(filename)\<close> and \<open>name, ext\<close> the \<open>os.path.splitext\<close> of
  its \<open>os.path.basename\<close>. The four functions are translated from CPython's
  \<open>posixpath\<close> (and \<open>genericpath._splitext\<close>), with \<open>str.rfind\<close> returning the last index
  of a character or -1, and the \<open>while\<close> loop of \<open>_splitext\<close> as a recursive scan.
\<close>

definition sep :: char where "sep = CHR ''/''"

definition extsep :: char where "extsep = CHR ''.''"

text \<open>\<open>s.rfind(c)\<close>: the highest index of \<open>c\<close> in \<open>s\<close>, or -1.\<close>

definition rfind :: "char \<Rightarrow> string \<Rightarrow> int" where
  "rfind c s =
     (if c \<in> set s then int (length s) - 1 - int (length (takeWhile (\<lambda>x. x \<noteq> c) (rev s)))
      else -1)"

text \<open>\<open>posixpath.basename\<close>: \<open>p[p.rfind(sep) + 1:]\<close>.\<close>

definition basename :: "path \<Rightarrow> path" where
  "basename p = drop (nat (rfind sep p + 1)) p"

definition rstrip_sep :: "string \<Rightarrow> string" where
  "rstrip_sep s = rev (dropWhile (\<lambda>c. c = sep) (rev s))"

text \<open>\<open>posixpath.dirname\<close>: the head up to the last separator, with trailing separators
  stripped unless the head is all separators.\<close>

definition dirname :: "path \<Rightarrow> path" where
  "dirname p =
     (let head = take (nat (rfind sep p + 1)) p
      in if head \<noteq> [] \<and> head \<noteq> replicate (length head) sep then rstrip_sep head else head)"

text \<open>\<open>posixpath.join(a, b)\<close> for two components.\<close>

definition join :: "path \<Rightarrow> path \<Rightarrow> path" where
  "join a b =
     (if b \<noteq> [] \<and> hd b = sep then b
      else if a = [] \<or> last a = sep then a @ b
      else a @ [sep] @ b)"

text \<open>The loop of \<open>_splitext\<close>: is some character at an index in \<open>[i, d)\<close> not a dot?\<close>

function splitext_scan :: "string \<Rightarrow> nat \<Rightarrow> nat \<Rightarrow> bool" where
  "splitext_scan p i d =
     (if i < d then (if p ! i \<noteq> extsep then True else splitext_scan p (Suc i) d) else False)"
  by pat_completeness auto
termination
  by (relation "measure (\<lambda>(p, i, d). d - i)") auto

declare splitext_scan.simps [simp del]

text \<open>\<open>genericpath._splitext(p, sep, None, extsep)\<close>.\<close>

definition splitext :: "path \<Rightarrow> path \<times> string" where
  "splitext p =
     (let sep_index = rfind sep p; dot_index = rfind extsep p
      in if dot_index > sep_index \<and> splitext_scan p (nat (sep_index + 1)) (nat dot_index)
         then (take (nat dot_index) p, drop (nat dot_index) p)
         else (p, []))"

text \<open>Lines 96-99: the suggested output path for a chosen input file.\<close>

definition amplified_name :: "path \<Rightarrow> path" where
  "amplified_name filename =
     (let directory = dirname filename; base = basename filename;
          (name, ext) = splitext base
      in join directory (name @ ''_amplified'' @ ext))"

subsection \<open>\<open>rfind\<close>, \<open>basename\<close> and \<open>splitext\<close>\<close>

lemma rfind_not_in [simp]: "c \<notin> set s \<Longrightarrow> rfind c s = -1"
  by (simp add: rfind_def)

lemma rfind_append:
  "rfind c (xs @ ys) = (if c \<in> set ys then int (length xs) + rfind c ys else rfind c xs)"
proof (cases "c \<in> set ys")
  case True
  then have "takeWhile (\<lambda>x. x \<noteq> c) (rev ys @ rev xs) = takeWhile (\<lambda>x. x \<noteq> c) (rev ys)"
    by (intro takeWhile_append1 [where x = c]) auto
  with True show ?thesis by (simp add: rfind_def)
next
  case False
  then have "takeWhile (\<lambda>x. x \<noteq> c) (rev ys @ rev xs) = rev ys @ takeWhile (\<lambda>x. x \<noteq> c) (rev xs)"
    by (intro takeWhile_append2) auto
  with False show ?thesis by (simp add: rfind_def)
qed

lemma rfind_last:
  "xs \<noteq> [] \<Longrightarrow> last xs = c \<Longrightarrow> rfind c xs = int (length xs) - 1"
  by (cases xs rule: rev_cases) (simp_all add: rfind_def)

lemma basename_rev: "basename p = rev (takeWhile (\<lambda>x. x \<noteq> sep) (rev p))"
proof (cases "sep \<in> set p")
  case True
  let ?n = "length (takeWhile (\<lambda>x. x \<noteq> sep) (rev p))"
  have le: "?n \<le> length p" by (metis length_rev length_takeWhile_le)
  have "nat (rfind sep p + 1) = length p - ?n" using True le by (simp add: rfind_def)
  then have "basename p = drop (length p - ?n) p" by (simp add: basename_def)
  also have "\<dots> = rev (take ?n (rev p))" by (simp add: rev_take)
  also have "take ?n (rev p) = takeWhile (\<lambda>x. x \<noteq> sep) (rev p)"
    by (rule takeWhile_eq_take [symmetric])
  finally show ?thesis .
next
  case False
  then have tw: "takeWhile (\<lambda>x. x \<noteq> sep) (rev p) = rev p" by (auto simp: takeWhile_eq_all_conv)
  have "basename p = p" using False by (simp add: basename_def)
  then show ?thesis by (simp only: tw rev_rev_ident)
qed

lemma sep_notin_basename: "sep \<notin> set (basename p)"
  by (auto simp: basename_rev dest: set_takeWhileD)

lemma basename_append:
  assumes "sep \<notin> set b" and "x = [] \<or> last x = sep"
  shows "basename (x @ b) = b"
proof (cases "x = []")
  case True
  with assms show ?thesis by (simp add: basename_def)
next
  case False
  with assms have "rfind sep (x @ b) = int (length x) - 1"
    by (simp add: rfind_append rfind_last)
  then show ?thesis by (simp add: basename_def)
qed

lemma splitext_scan_iff:
  "splitext_scan p i d \<longleftrightarrow> (\<exists>j. i \<le> j \<and> j < d \<and> p ! j \<noteq> extsep)"
proof (induction p i d rule: splitext_scan.induct)
  case (1 p i d)
  show ?case
  proof (cases "i < d \<and> p ! i = extsep")
    case True
    then have "splitext_scan p i d = splitext_scan p (Suc i) d"
      by (simp add: splitext_scan.simps [of p i d])
    also have "\<dots> \<longleftrightarrow> (\<exists>j. Suc i \<le> j \<and> j < d \<and> p ! j \<noteq> extsep)"
      using "1.IH" True by simp
    also have "\<dots> \<longleftrightarrow> (\<exists>j. i \<le> j \<and> j < d \<and> p ! j \<noteq> extsep)"
      using True by (metis Suc_leI le_eq_less_or_eq order.trans le_SucI order_refl)
    finally show ?thesis .
  next
    case False
    then show ?thesis by (auto simp: splitext_scan.simps [of p i d])
  qed
qed


lemma rfind_split:
  assumes "c \<in> set s"
  obtains xs ys where "s = xs @ c # ys" and "c \<notin> set ys" and "rfind c s = int (length xs)"
proof -
  obtain xs ys where s: "s = xs @ c # ys" and ys: "c \<notin> set ys"
    using split_list_last [OF assms] by blast
  have "rfind c (c # ys) = 0"
    using rfind_append [of c "[c]" ys] ys by (simp add: rfind_def)
  then have "rfind c s = int (length xs)"
    using s rfind_append [of c xs "c # ys"] by simp
  with s ys show ?thesis by (rule that)
qed

lemma splitext_no_sep:
  "sep \<notin> set s \<Longrightarrow>
   splitext s =
     (if 0 \<le> rfind extsep s \<and> (\<exists>j < nat (rfind extsep s). s ! j \<noteq> extsep)
      then (take (nat (rfind extsep s)) s, drop (nat (rfind extsep s)) s)
      else (s, []))"
  by (auto simp: splitext_def splitext_scan_iff Let_def)

lemma splitext_concat: "splitext s = (n, e) \<Longrightarrow> n @ e = s"
  by (auto simp: splitext_def Let_def split: if_splits)

lemma splitext_suffix:
  assumes s: "sep \<notin> set s" and split: "splitext s = (n, e)"
    and t: "sep \<notin> set t" "extsep \<notin> set t" "t \<noteq> []"
  shows "splitext (n @ t @ e) = (n @ t, e)"
proof (cases "0 \<le> rfind extsep s \<and> (\<exists>j < nat (rfind extsep s). s ! j \<noteq> extsep)")
  case True
  then have dot: "extsep \<in> set s" by (auto simp: rfind_def split: if_splits)
  obtain xs ys where sx: "s = xs @ extsep # ys" and ys: "extsep \<notin> set ys"
    and r: "rfind extsep s = int (length xs)"
    using rfind_split [OF dot] by blast
  have ne: "n = xs" "e = extsep # ys"
    using split True r sx s by (simp_all add: splitext_no_sep)
  have nosep: "sep \<notin> set (xs @ t @ extsep # ys)"
    using s t(1) sx by (auto simp: sep_def extsep_def)
  have rd: "rfind extsep (xs @ t @ extsep # ys) = int (length xs + length t)"
  proof -
    have "rfind extsep (extsep # ys) = 0"
      using rfind_append [of extsep "[extsep]" ys] ys by (simp add: rfind_def)
    then show ?thesis
      using rfind_append [of extsep xs "t @ extsep # ys"] rfind_append [of extsep t "extsep # ys"]
      by simp
  qed
  have "(xs @ t @ extsep # ys) ! length xs \<noteq> extsep"
    using t(2,3) by (cases t) (auto simp: nth_append)
  then have "\<exists>j < length xs + length t. (xs @ t @ extsep # ys) ! j \<noteq> extsep"
    using t(3) by (intro exI [of _ "length xs"]) simp
  moreover have "nat (rfind extsep (xs @ t @ extsep # ys)) = length xs + length t"
    using rd by simp
  ultimately show ?thesis
    using ne nosep rd by (simp add: splitext_no_sep)
next
  case False
  then have ne: "n = s" "e = []" using split s by (auto simp: splitext_no_sep split: if_splits)
  have nosep: "sep \<notin> set (s @ t)" using s t(1) by simp
  have rd: "rfind extsep (s @ t) = rfind extsep s" using t(2) by (simp add: rfind_append)
  have "\<not> (0 \<le> rfind extsep s \<and> (\<exists>j < nat (rfind extsep s). (s @ t) ! j \<noteq> extsep))"
  proof
    assume a: "0 \<le> rfind extsep s \<and> (\<exists>j < nat (rfind extsep s). (s @ t) ! j \<noteq> extsep)"
    then have "extsep \<in> set s" by (auto simp: rfind_def split: if_splits)
    then obtain xs ys where "s = xs @ extsep # ys" and "rfind extsep s = int (length xs)"
      by (rule rfind_split)
    with a False show False by (auto simp: nth_append)
  qed
  then show ?thesis using ne nosep rd by (auto simp: splitext_no_sep)
qed


lemma splitext_sep_free:
  "sep \<notin> set s \<Longrightarrow> splitext s = (n, e) \<Longrightarrow> sep \<notin> set n \<and> sep \<notin> set e"
  by (metis Un_iff set_append splitext_concat)

lemma hd_sep_free: "sep \<notin> set b \<Longrightarrow> b \<noteq> [] \<Longrightarrow> hd b \<noteq> sep"
  by (cases b) auto

lemma basename_join:
  assumes "sep \<notin> set b" and "b \<noteq> []"
  shows "basename (join a b) = b"
proof (cases "a = [] \<or> last a = sep")
  case True
  then have "join a b = a @ b" using hd_sep_free [OF assms] by (simp add: join_def)
  with True assms show ?thesis by (simp add: basename_append)
next
  case False
  then have "join a b = (a @ [sep]) @ b" using hd_sep_free [OF assms] by (simp add: join_def)
  with assms basename_append [of b "a @ [sep]"] show ?thesis by simp
qed

lemma rstrip_sep_snoc:
  "a \<noteq> [] \<Longrightarrow> last a \<noteq> sep \<Longrightarrow> rstrip_sep (a @ [sep]) = a"
  by (cases a rule: rev_cases) (simp_all add: rstrip_sep_def)

lemma all_sep_iff: "xs = replicate (length xs) sep \<longleftrightarrow> set xs \<subseteq> {sep}"
  by (induction xs) auto

lemma last_rstrip_sep:
  "\<not> set s \<subseteq> {sep} \<Longrightarrow> rstrip_sep s \<noteq> [] \<and> last (rstrip_sep s) \<noteq> sep"
proof -
  assume "\<not> set s \<subseteq> {sep}"
  then have ne: "dropWhile (\<lambda>c. c = sep) (rev s) \<noteq> []" by (auto simp: dropWhile_eq_Nil_conv)
  then have "hd (dropWhile (\<lambda>c. c = sep) (rev s)) \<noteq> sep" using hd_dropWhile by blast
  with ne show ?thesis by (simp add: rstrip_sep_def last_rev)
qed

lemma dirname_shape:
  "dirname p = [] \<or> (dirname p \<noteq> [] \<and> set (dirname p) \<subseteq> {sep}) \<or>
   (dirname p \<noteq> [] \<and> last (dirname p) \<noteq> sep)"
  using last_rstrip_sep all_sep_iff by (auto simp: dirname_def Let_def)

lemma dirname_sep_free: "sep \<notin> set b \<Longrightarrow> dirname b = []"
  by (simp add: dirname_def)

lemma dirname_join:
  assumes b: "sep \<notin> set b" "b \<noteq> []"
  shows "dirname (join (dirname p) b) = dirname p"
proof -
  let ?d = "dirname p"
  have hb: "hd b \<noteq> sep" using hd_sep_free [OF b] .
  consider (empty) "?d = []" | (seps) "?d \<noteq> []" "set ?d \<subseteq> {sep}"
    | (other) "?d \<noteq> []" "last ?d \<noteq> sep"
    using dirname_shape by blast
  then show ?thesis
  proof cases
    case empty
    then have "join ?d b = b" using hb by (simp add: join_def)
    then show ?thesis using empty dirname_sep_free [OF b(1)] by simp
  next
    case seps
    then have l: "last ?d = sep" using last_in_set [OF seps(1)] by blast
    then have j: "join ?d b = ?d @ b" using hb by (simp add: join_def)
    have "rfind sep (?d @ b) = int (length ?d) - 1"
      using b(1) seps(1) l by (simp add: rfind_append rfind_last)
    then have h: "take (nat (rfind sep (?d @ b) + 1)) (?d @ b) = ?d" by simp
    have "?d = replicate (length ?d) sep" using seps(2) all_sep_iff by blast
    then show ?thesis using j h seps(1) by (simp add: dirname_def [of "?d @ b"] Let_def)
  next
    case other
    then have j: "join ?d b = (?d @ [sep]) @ b" using hb by (simp add: join_def)
    have "rfind sep ((?d @ [sep]) @ b) = int (length ?d)"
      using b(1) by (simp add: rfind_append rfind_last del: append_assoc)
    then have h: "take (nat (rfind sep ((?d @ [sep]) @ b) + 1)) ((?d @ [sep]) @ b) = ?d @ [sep]"
      by (simp del: append_assoc)
    have "\<not> set (?d @ [sep]) \<subseteq> {sep}" using other by (cases ?d rule: rev_cases) auto
    then have "?d @ [sep] \<noteq> replicate (length (?d @ [sep])) sep" using all_sep_iff by blast
    then have "dirname ((?d @ [sep]) @ b) = rstrip_sep (?d @ [sep])"
      using h by (simp only: dirname_def [of "(?d @ [sep]) @ b"] Let_def) simp
    then show ?thesis using j rstrip_sep_snoc [OF other] by simp
  qed
qed


subsection \<open>The suggested output path\<close>

lemma amplified_name_parts:
  assumes "splitext (basename p) = (n, e)"
  shows "amplified_name p = join (dirname p) (n @ ''_amplified'' @ e)"
    and "sep \<notin> set (n @ ''_amplified'' @ e)"
  using assms splitext_sep_free [OF sep_notin_basename assms]
  by (simp_all add: amplified_name_def Let_def sep_def)

text \<open>
  C16. The suggested output keeps the input's extension and appends \<open>_amplified\<close> to
  its name: \<open>os.path.splitext\<close> of its base name gives the input's name with the suffix
  and the input's extension.
\<close>

theorem amplified_name_splitext:
  "splitext (basename (amplified_name p)) =
     (fst (splitext (basename p)) @ ''_amplified'', snd (splitext (basename p)))"
proof -
  obtain n e where sp: "splitext (basename p) = (n, e)" by (cases "splitext (basename p)")
  have "basename (amplified_name p) = n @ ''_amplified'' @ e"
    using amplified_name_parts [OF sp] by (simp add: basename_join)
  moreover have "splitext (n @ ''_amplified'' @ e) = (n @ ''_amplified'', e)"
    by (rule splitext_suffix [OF sep_notin_basename sp]) (simp_all add: sep_def extsep_def)
  ultimately show ?thesis using sp by simp
qed

text \<open>
  C17. The suggested output lies in the input's directory: its \<open>os.path.dirname\<close> is
  the input's.
\<close>

theorem amplified_name_dirname: "dirname (amplified_name p) = dirname p"
proof -
  obtain n e where sp: "splitext (basename p) = (n, e)" by (cases "splitext (basename p)")
  show ?thesis
    using amplified_name_parts [OF sp] by (simp add: dirname_join)
qed

text \<open>
  C15. The output path suggested for a chosen input file is never the input path itself,
  so accepting the suggestion never overwrites the source video.
\<close>

theorem amplified_name_differs: "amplified_name p \<noteq> p"
proof
  assume eq: "amplified_name p = p"
  obtain n e where sp: "splitext (basename p) = (n, e)" by (cases "splitext (basename p)")
  have "basename (amplified_name p) = n @ ''_amplified'' @ e"
    using amplified_name_parts [OF sp] by (simp add: basename_join)
  then have "length (basename p) = length (n @ e) + 10" using eq by simp
  moreover have "n @ e = basename p" by (rule splitext_concat [OF sp])
  ultimately show False by simp
qed

end
