(* ===== verification/Gui.thy ===== *)
theory Gui
  imports Status Paths
begin

text \<open>
  The presentation shell of \<open>src/src/frontend.py\<close>, class \<open>VideoAmplifierGUI\<close>: the
  Tk variables and the widget state the code reads and writes (the entries, the process
  button, the progress bar, the status label), the modal dialogs it shows, the snapshot
  handler \<open>_update_gui_status\<close> and the validation gate \<open>process_video\<close>. The factor
  entry is a \<open>DoubleVar\<close>: \<open>get()\<close> returns the entry's text as a number, or raises
  \<open>TclError\<close> when the text is not one; \<open>factor_entry\<close> is \<open>None\<close> in that case.
\<close>

datatype dialog = Show_Info string string | Show_Error string string

record gui =
  input_path :: string
  output_path :: string
  factor_entry :: "real option"
  button_enabled :: bool
  progress_bar :: int
  status_label :: string
  dialogs :: "dialog list"

text \<open>\<open>__init__\<close> and \<open>create_widgets\<close>: empty paths, factor 2.0, the button enabled, the bar
  at 0 and the label \<open>Ready\<close>.\<close>

definition gui_init :: gui where
  "gui_init =
     \<lparr>input_path = [], output_path = [], factor_entry = Some 2, button_enabled = True,
      progress_bar = 0, status_label = ''Ready'', dialogs = []\<rparr>"

text \<open>An \<open>Optional[str]\<close> inside an f-string: \<open>None\<close> prints as \<open>None\<close>.\<close>

fun py_format :: "string option \<Rightarrow> string" where
  "py_format None = ''None''"
| "py_format (Some s) = s"

definition show_dialog :: "dialog \<Rightarrow> gui \<Rightarrow> gui" where
  "show_dialog d g = g\<lparr>dialogs := dialogs g @ [d]\<rparr>"

text \<open>\<open>_update_gui_status\<close>, lines 32-50.\<close>

definition update_gui_status :: "processing_status \<Rightarrow> gui \<Rightarrow> gui" where
  "update_gui_status s g =
     (if is_processing s then
        g\<lparr>button_enabled := False, progress_bar := progress s, status_label := status_message s\<rparr>
      else
        (let g1 = g\<lparr>button_enabled := True\<rparr> in
         if progress s = 100 then
           (show_dialog (Show_Info ''Success'' ''Video processing completed successfully!'') g1)
             \<lparr>progress_bar := 0, status_label := ''Ready''\<rparr>
         else if py_truthy (error_message s) then
           (show_dialog (Show_Error ''Error'' (''Error processing video: '' @ py_format (error_message s))) g1)
             \<lparr>progress_bar := 0, status_label := ''Ready''\<rparr>
         else g1))"

text \<open>What \<open>process_video\<close> does after its checks: nothing, start the worker thread, or
  let the \<open>TclError\<close> of \<open>DoubleVar.get\<close> escape the Tk callback.\<close>

datatype launch = Not_Started | Thread_Started | Raised_TclError

definition process_video :: "gui \<Rightarrow> gui \<times> launch" where
  "process_video g =
     (if input_path g = [] \<or> output_path g = [] then
        (show_dialog (Show_Error ''Error'' ''Please select input and output files'') g, Not_Started)
      else
        (case factor_entry g of
           None \<Rightarrow> (g, Raised_TclError)
         | Some amp_factor \<Rightarrow>
             if amp_factor \<le> 0 then
               (show_dialog (Show_Error ''Error''
                  (''Invalid amplification factor: '' @ ''Amplification factor must be positive'')) g,
                Not_Started)
             else (g, Thread_Started)))"

text \<open>The arguments \<open>_process_video_thread\<close> reads when the thread runs: the two paths
  and \<open>amplification_factor.get()\<close> again, which raises when the entry is no number.\<close>

definition job_args :: "gui \<Rightarrow> (path \<times> path \<times> real) option" where
  "job_args g =
     (case factor_entry g of None \<Rightarrow> None | Some x \<Rightarrow> Some (input_path g, output_path g, x))"

text \<open>\<open>browse_input\<close>, lines 88-99: the dialog returns the chosen file, or the empty
  string when it is cancelled; a chosen file replaces both paths.\<close>

definition browse_input :: "path \<Rightarrow> gui \<Rightarrow> gui" where
  "browse_input filename g =
     (if filename = [] then g
      else g\<lparr>input_path := filename, output_path := amplified_name filename\<rparr>)"

text \<open>The idle display of the spec: button enabled, bar at 0, label \<open>Ready\<close>.\<close>

definition idle_display :: "gui \<Rightarrow> bool" where
  "idle_display g \<longleftrightarrow> button_enabled g \<and> progress_bar g = 0 \<and> status_label g = ''Ready''"

subsection \<open>The snapshot handler\<close>

lemma update_gui_status_running:
  "is_processing s \<Longrightarrow>
   update_gui_status s g =
     g\<lparr>button_enabled := False, progress_bar := progress s, status_label := status_message s\<rparr>"
  by (simp add: update_gui_status_def)

lemma update_gui_status_success:
  "\<not> is_processing s \<Longrightarrow> progress s = 100 \<Longrightarrow>
   update_gui_status s g =
     (show_dialog (Show_Info ''Success'' ''Video processing completed successfully!'') g)
       \<lparr>button_enabled := True, progress_bar := 0, status_label := ''Ready''\<rparr>"
  by (simp add: update_gui_status_def show_dialog_def)

lemma update_gui_status_error:
  "\<not> is_processing s \<Longrightarrow> progress s \<noteq> 100 \<Longrightarrow> error_message s = Some m \<Longrightarrow> m \<noteq> [] \<Longrightarrow>
   update_gui_status s g =
     (show_dialog (Show_Error ''Error'' (''Error processing video: '' @ m)) g)
       \<lparr>button_enabled := True, progress_bar := 0, status_label := ''Ready''\<rparr>"
  by (simp add: update_gui_status_def show_dialog_def)

lemma update_gui_status_silent:
  "\<not> is_processing s \<Longrightarrow> progress s \<noteq> 100 \<Longrightarrow> \<not> py_truthy (error_message s) \<Longrightarrow>
   update_gui_status s g = g\<lparr>button_enabled := True\<rparr>"
  by (simp add: update_gui_status_def)

lemma update_gui_status_inputs [simp]:
  "input_path (update_gui_status s g) = input_path g"
  "output_path (update_gui_status s g) = output_path g"
  "factor_entry (update_gui_status s g) = factor_entry g"
  by (simp_all add: update_gui_status_def show_dialog_def Let_def)

lemma fold_running_dialogs:
  "\<forall>s \<in> set xs. is_processing s \<Longrightarrow> dialogs (fold update_gui_status xs g) = dialogs g"
  by (induction xs arbitrary: g) (simp_all add: update_gui_status_running)

lemma fold_running_display:
  "xs \<noteq> [] \<Longrightarrow> \<forall>s \<in> set xs. is_processing s \<Longrightarrow>
   \<not> button_enabled (fold update_gui_status xs g) \<and>
   progress_bar (fold update_gui_status xs g) = progress (last xs) \<and>
   status_label (fold update_gui_status xs g) = status_message (last xs)"
proof (induction xs arbitrary: g)
  case Nil
  then show ?case by simp
next
  case (Cons s xs)
  then show ?case by (cases "xs = []") (simp_all add: update_gui_status_running)
qed

subsection \<open>Validation, launch and the running display\<close>

text \<open>
  C9. \<open>process_video\<close> starts the worker thread exactly when both paths are non-empty
  and the factor entry holds a positive number.
\<close>

theorem process_video_starts_iff:
  "snd (process_video g) = Thread_Started \<longleftrightarrow>
     input_path g \<noteq> [] \<and> output_path g \<noteq> [] \<and> (\<exists>x. factor_entry g = Some x \<and> 0 < x)"
  by (auto simp: process_video_def split: option.splits)

text \<open>
  C10. With both paths set and a factor that is zero or negative, \<open>process_video\<close>
  shows the error dialog "Invalid amplification factor: Amplification factor must be
  positive", changes nothing else, and starts no job.
\<close>

theorem process_video_nonpositive_factor:
  assumes "input_path g \<noteq> []" and "output_path g \<noteq> []"
    and "factor_entry g = Some x" and "x \<le> 0"
  shows "process_video g =
           (g\<lparr>dialogs := dialogs g @ [Show_Error ''Error''
              ''Invalid amplification factor: Amplification factor must be positive'']\<rparr>,
            Not_Started)"
  using assms by (simp add: process_video_def show_dialog_def)

theorem process_video_nonpositive_factor_witness:
  "process_video (gui_init\<lparr>input_path := ''in.mp4'', output_path := ''out.mp4'', factor_entry := Some 0\<rparr>) =
     (gui_init\<lparr>input_path := ''in.mp4'', output_path := ''out.mp4'', factor_entry := Some 0,
               dialogs := [Show_Error ''Error''
                 ''Invalid amplification factor: Amplification factor must be positive'']\<rparr>,
      Not_Started)"
  using process_video_nonpositive_factor
    [of "gui_init\<lparr>input_path := ''in.mp4'', output_path := ''out.mp4'', factor_entry := Some 0\<rparr>" 0]
  by (simp add: gui_init_def)

text \<open>
  C11. With both paths set and a factor entry that is not a number, \<open>DoubleVar.get\<close>
  raises \<open>TclError\<close>, which the \<open>except ValueError\<close> does not catch: no dialog is shown,
  nothing changes and no job starts.
\<close>

theorem process_video_unparsable_factor:
  assumes "input_path g \<noteq> []" and "output_path g \<noteq> []" and "factor_entry g = None"
  shows "process_video g = (g, Raised_TclError)"
  using assms by (simp add: process_video_def)

theorem process_video_unparsable_factor_witness:
  "process_video (gui_init\<lparr>input_path := ''in.mp4'', output_path := ''out.mp4'', factor_entry := None\<rparr>) =
     (gui_init\<lparr>input_path := ''in.mp4'', output_path := ''out.mp4'', factor_entry := None\<rparr>,
      Raised_TclError)"
  by (rule process_video_unparsable_factor) (simp_all add: gui_init_def)

text \<open>
  C12. While the snapshots it receives are in flight, the GUI keeps the process button
  disabled, shows the progress and message of the latest one and opens no dialog.
\<close>

theorem gui_running_display:
  assumes "xs \<noteq> []" and "\<forall>s \<in> set xs. is_processing s"
  shows "\<not> button_enabled (fold update_gui_status xs g) \<and>
         progress_bar (fold update_gui_status xs g) = progress (last xs) \<and>
         status_label (fold update_gui_status xs g) = status_message (last xs) \<and>
         dialogs (fold update_gui_status xs g) = dialogs g"
  using fold_running_display [OF assms] fold_running_dialogs [OF assms(2)] by simp

theorem gui_running_display_witness:
  "\<not> button_enabled (fold update_gui_status
       [\<lparr>is_processing = True, progress = 0, status_message = ''Starting processing...'', error_message = None\<rparr>,
        \<lparr>is_processing = True, progress = 10, status_message = ''Loading video file...'', error_message = None\<rparr>]
       gui_init) \<and>
   progress_bar (fold update_gui_status
       [\<lparr>is_processing = True, progress = 0, status_message = ''Starting processing...'', error_message = None\<rparr>,
        \<lparr>is_processing = True, progress = 10, status_message = ''Loading video file...'', error_message = None\<rparr>]
       gui_init) = 10 \<and>
   status_label (fold update_gui_status
       [\<lparr>is_processing = True, progress = 0, status_message = ''Starting processing...'', error_message = None\<rparr>,
        \<lparr>is_processing = True, progress = 10, status_message = ''Loading video file...'', error_message = None\<rparr>]
       gui_init) = ''Loading video file...'' \<and>
   dialogs (fold update_gui_status
       [\<lparr>is_processing = True, progress = 0, status_message = ''Starting processing...'', error_message = None\<rparr>,
        \<lparr>is_processing = True, progress = 10, status_message = ''Loading video file...'', error_message = None\<rparr>]
       gui_init) = dialogs gui_init"
  using gui_running_display
    [of "[\<lparr>is_processing = True, progress = 0, status_message = ''Starting processing...'', error_message = None\<rparr>,
          \<lparr>is_processing = True, progress = 10, status_message = ''Loading video file...'', error_message = None\<rparr>]"
        gui_init]
  by simp

end
