(* ===== verification/System.thy ===== *)
theory System
  imports Processor Gui
begin

text \<open>
  The threads of the running application (\<open>src/src/app.py\<close>, \<open>src/src/frontend.py\<close>,
  \<open>src/src/backend.py\<close>). The Tk thread runs \<open>process_video\<close> when the button is
  clicked, applies the user's edits to the factor entry, and dispatches from its event
  queue the calls \<open>_update_gui_status(status)\<close> that \<open>_on_status_update\<close> schedules
  with \<open>root.after(0, ...)\<close>. Each worker thread started by \<open>process_video\<close> runs
  \<open>_process_video_thread\<close>: it reads the three Tk variables (a factor that no longer
  parses raises \<open>TclError\<close> in the thread) and calls \<open>amplify_audio\<close>.

  The status object \<open>self._status\<close> lives in an explicit store at address
  \<open>status_addr\<close>; \<open>_update_status\<close> mutates it in place and the event it schedules
  holds a reference to it, so a queued event reads the object as it is when dispatched.
  One step is one atomic action: a click, an edit, the dispatch of one queued event, the
  argument reads of a worker, its in-flight check, its first update, its
  \<open>os.makedirs\<close>, or one later \<open>_update_status\<close> together with the library call that
  follows it. Whether \<open>makedirs\<close> or a library call fails is a nondeterministic choice;
  \<open>Processor\<close> says when each happens. The fields \<open>calls\<close> (the arguments of every
  \<open>amplify_audio\<close> call), \<open>log\<close> (every status as published) and \<open>seen\<close> (every
  status as the GUI read it) are observations, not program state.
\<close>

datatype wpc =
    W_Read | W_Read_Failed | W_Guard | W_Start | W_Makedirs | W_Makedirs_Failed
  | W_Step nat | W_Fail string | W_Done bool

record sys =
  store :: "nat \<Rightarrow> processing_status"
  queue :: "nat list"
  ui :: gui
  workers :: "wpc list"
  calls :: "(path \<times> path \<times> real) list"
  log :: "processing_status list"
  seen :: "processing_status list"

definition status_addr :: nat where
  "status_addr = 0"

definition sys_init :: "gui \<Rightarrow> sys" where
  "sys_init g =
     \<lparr>store = (\<lambda>_. default_status), queue = [], ui = g, workers = [], calls = [],
      log = [], seen = []\<rparr>"

text \<open>\<open>_on_status_update(status)\<close>: \<open>root.after(0, self._update_gui_status, status)\<close>
  queues the object itself, not a copy.\<close>

definition on_status_update :: "nat \<Rightarrow> sys \<Rightarrow> sys" where
  "on_status_update a s = s\<lparr>queue := queue s @ [a]\<rparr>"

text \<open>\<open>_update_status(**kwargs)\<close> with the GUI's callback registered.\<close>

definition publish :: "status_field list \<Rightarrow> sys \<Rightarrow> sys" where
  "publish kws s =
     (let st = apply_kwargs (store s status_addr) kws
      in on_status_update status_addr
           (s\<lparr>store := (store s)(status_addr := st), log := log s @ [st]\<rparr>))"

definition set_pc :: "nat \<Rightarrow> wpc \<Rightarrow> sys \<Rightarrow> sys" where
  "set_pc i pc s = s\<lparr>workers := (workers s)[i := pc]\<rparr>"

definition step_fields :: "nat \<Rightarrow> status_field list" where
  "step_fields k = [Set_progress (fst (pipeline_steps ! k)), Set_status_message (snd (pipeline_steps ! k))]"

text \<open>A worker is running a job once it has passed the in-flight check and until its
  final update or the exception of \<open>makedirs\<close>.\<close>

fun running :: "wpc \<Rightarrow> bool" where
  "running W_Start = True"
| "running W_Makedirs = True"
| "running (W_Step k) = True"
| "running (W_Fail msg) = True"
| "running _ = False"

definition n_running :: "sys \<Rightarrow> nat" where
  "n_running s = length (filter running (workers s))"

text \<open>The workers that may have left the status in flight: those running, and those whose
  \<open>makedirs\<close> raised after the first update.\<close>

definition holds_status :: "wpc \<Rightarrow> bool" where
  "holds_status w \<longleftrightarrow> running w \<or> w = W_Makedirs_Failed"

text \<open>A window with both paths filled in and the default factor 2.0.\<close>

definition demo_gui :: gui where
  "demo_gui = gui_init\<lparr>input_path := ''in.mp4'', output_path := ''out.mp4''\<rparr>"

inductive sys_step :: "sys \<Rightarrow> sys \<Rightarrow> bool" where
  click: "button_enabled (ui s) \<Longrightarrow> process_video (ui s) = (g', r) \<Longrightarrow>
    sys_step s (s\<lparr>ui := g', workers := workers s @ (if r = Thread_Started then [W_Read] else [])\<rparr>)"
| edit_factor: "sys_step s (s\<lparr>ui := (ui s)\<lparr>factor_entry := x\<rparr>\<rparr>)"
| dispatch: "queue s = a # q \<Longrightarrow>
    sys_step s (s\<lparr>ui := update_gui_status (store s a) (ui s), queue := q, seen := seen s @ [store s a]\<rparr>)"
| read_args: "i < length (workers s) \<Longrightarrow> workers s ! i = W_Read \<Longrightarrow> job_args (ui s) = Some args \<Longrightarrow>
    sys_step s ((set_pc i W_Guard s)\<lparr>calls := calls s @ [args]\<rparr>)"
| read_fail: "i < length (workers s) \<Longrightarrow> workers s ! i = W_Read \<Longrightarrow> job_args (ui s) = None \<Longrightarrow>
    sys_step s (set_pc i W_Read_Failed s)"
| guard_busy: "i < length (workers s) \<Longrightarrow> workers s ! i = W_Guard \<Longrightarrow>
    is_processing (store s status_addr) \<Longrightarrow> sys_step s (set_pc i (W_Done False) s)"
| guard_pass: "i < length (workers s) \<Longrightarrow> workers s ! i = W_Guard \<Longrightarrow>
    \<not> is_processing (store s status_addr) \<Longrightarrow> sys_step s (set_pc i W_Start s)"
| start: "i < length (workers s) \<Longrightarrow> workers s ! i = W_Start \<Longrightarrow>
    sys_step s (set_pc i W_Makedirs (publish start_fields s))"
| makedirs_ok: "i < length (workers s) \<Longrightarrow> workers s ! i = W_Makedirs \<Longrightarrow>
    sys_step s (set_pc i (W_Step 0) s)"
| makedirs_fail: "i < length (workers s) \<Longrightarrow> workers s ! i = W_Makedirs \<Longrightarrow>
    sys_step s (set_pc i W_Makedirs_Failed s)"
| step_ok: "i < length (workers s) \<Longrightarrow> workers s ! i = W_Step k \<Longrightarrow> k < 7 \<Longrightarrow>
    sys_step s (set_pc i (W_Step (Suc k)) (publish (step_fields k) s))"
| step_fail: "i < length (workers s) \<Longrightarrow> workers s ! i = W_Step k \<Longrightarrow> k < 7 \<Longrightarrow>
    sys_step s (set_pc i (W_Fail msg) (publish (step_fields k) s))"
| complete: "i < length (workers s) \<Longrightarrow> workers s ! i = W_Step 7 \<Longrightarrow>
    sys_step s (set_pc i (W_Done True) (publish complete_fields s))"
| fail: "i < length (workers s) \<Longrightarrow> workers s ! i = W_Fail msg \<Longrightarrow>
    sys_step s (set_pc i (W_Done False) (publish (error_fields msg) s))"

text \<open>\<open>main()\<close>: the window is built, then \<open>root.mainloop()\<close> runs the steps above.\<close>

inductive sys_reach :: "gui \<Rightarrow> sys \<Rightarrow> bool" for g where
  init: "sys_reach g (sys_init g)"
| step: "sys_reach g s \<Longrightarrow> sys_step s t \<Longrightarrow> sys_reach g t"

text \<open>The invariants: a status in flight is held by some worker; every pending event
  refers to the one status object, which holds the last status published, and each
  publication has queued one event.\<close>

definition held_inv :: "sys \<Rightarrow> bool" where
  "held_inv s \<longleftrightarrow>
     (is_processing (store s status_addr) \<longrightarrow> 0 < length (filter holds_status (workers s)))"

definition queue_inv :: "sys \<Rightarrow> bool" where
  "queue_inv s \<longleftrightarrow> set (queue s) \<subseteq> {status_addr} \<and>
     length (seen s) + length (queue s) = length (log s) \<and>
     store s status_addr = last (default_status # log s)"

subsection \<open>Steps and runs\<close>

lemma process_video_demo: "process_video demo_gui = (demo_gui, Thread_Started)"
  by (simp add: process_video_def demo_gui_def gui_init_def)

lemma job_args_demo: "job_args demo_gui = Some (''in.mp4'', ''out.mp4'', 2)"
  by (simp add: job_args_def demo_gui_def gui_init_def)

lemma sys_init_fields [simp]:
  "store (sys_init g) = (\<lambda>_. default_status)" "queue (sys_init g) = []" "ui (sys_init g) = g"
  "workers (sys_init g) = []" "calls (sys_init g) = []" "log (sys_init g) = []"
  "seen (sys_init g) = []"
  by (simp_all add: sys_init_def)

lemma length_filter_update:
  "i < length xs \<Longrightarrow>
   length (filter P (xs[i := y])) + (if P (xs ! i) then 1 else 0) =
   length (filter P xs) + (if P y then 1 else 0)"
proof (induction xs arbitrary: i)
  case Nil
  then show ?case by simp
next
  case (Cons x xs)
  show ?case
  proof (cases i)
    case 0
    then show ?thesis by simp
  next
    case (Suc j)
    with Cons.prems have "j < length xs" by simp
    from Cons.IH [OF this] Suc show ?thesis by simp
  qed
qed

lemma length_filter_update_mono:
  "i < length xs \<Longrightarrow> (P (xs ! i) \<Longrightarrow> P y) \<Longrightarrow>
   length (filter P xs) \<le> length (filter P (xs[i := y]))"
  using length_filter_update [of i xs P y] by (cases "P (xs ! i)") auto

lemma publish_fields [simp]:
  "store (publish kws s) status_addr = apply_kwargs (store s status_addr) kws"
  "workers (publish kws s) = workers s" "ui (publish kws s) = ui s"
  "queue (publish kws s) = queue s @ [status_addr]" "calls (publish kws s) = calls s"
  "log (publish kws s) = log s @ [apply_kwargs (store s status_addr) kws]"
  "seen (publish kws s) = seen s"
  by (simp_all add: publish_def on_status_update_def Let_def)

lemma set_pc_fields [simp]:
  "store (set_pc i pc s) = store s" "workers (set_pc i pc s) = (workers s)[i := pc]"
  "ui (set_pc i pc s) = ui s" "queue (set_pc i pc s) = queue s" "calls (set_pc i pc s) = calls s"
  "log (set_pc i pc s) = log s" "seen (set_pc i pc s) = seen s"
  by (simp_all add: set_pc_def)

lemma is_processing_fields [simp]:
  "is_processing (apply_kwargs st start_fields)"
  "is_processing (apply_kwargs st (step_fields k)) = is_processing st"
  "\<not> is_processing (apply_kwargs st complete_fields)"
  "\<not> is_processing (apply_kwargs st (error_fields msg))"
  by (simp_all add: start_fields_def step_fields_def complete_fields_def error_fields_def)

lemma holds_status_simps [simp]:
  "holds_status W_Makedirs" "holds_status W_Makedirs_Failed" "holds_status (W_Step k)"
  "holds_status (W_Fail msg)" "holds_status W_Start" "\<not> holds_status W_Read"
  "\<not> holds_status W_Read_Failed" "\<not> holds_status W_Guard" "\<not> holds_status (W_Done b)"
  by (simp_all add: holds_status_def)

lemma held_inv_calls [simp]: "held_inv (s\<lparr>calls := c\<rparr>) = held_inv s"
  by (simp add: held_inv_def)

lemma held_inv_set_pc:
  "held_inv s \<Longrightarrow> i < length (workers s) \<Longrightarrow> (holds_status (workers s ! i) \<Longrightarrow> holds_status pc) \<Longrightarrow>
   held_inv (set_pc i pc s)"
  using length_filter_update_mono [of i "workers s" holds_status pc]
  by (auto simp: held_inv_def)

lemma sys_step_held_inv: "sys_step s t \<Longrightarrow> held_inv s \<Longrightarrow> held_inv t"
proof (induction rule: sys_step.induct)
  case (click s g' r)
  then show ?case by (auto simp: held_inv_def)
next
  case (edit_factor s x)
  then show ?case by (simp add: held_inv_def)
next
  case (dispatch s a q)
  then show ?case by (simp add: held_inv_def)
next
  case (start i s)
  have "W_Makedirs \<in> set ((workers s)[i := W_Makedirs])"
    using start.hyps(1) by (rule set_update_memI)
  then have "W_Makedirs \<in> set (filter holds_status ((workers s)[i := W_Makedirs]))" by simp
  then have "0 < length (filter holds_status ((workers s)[i := W_Makedirs]))"
    by (rule length_pos_if_in_set)
  then show ?case by (simp add: held_inv_def)
next
  case (step_ok i s k)
  then show ?case by (intro held_inv_set_pc) (simp_all add: held_inv_def)
next
  case (step_fail i s k msg)
  then show ?case by (intro held_inv_set_pc) (simp_all add: held_inv_def)
next
  case (complete i s)
  then show ?case by (simp add: held_inv_def)
next
  case (fail i s msg)
  then show ?case by (simp add: held_inv_def)
next
  case (read_args i s args)
  then have "held_inv (set_pc i W_Guard s)" by (intro held_inv_set_pc) simp_all
  then show ?case by simp
qed (intro held_inv_set_pc; simp)+


lemma queue_inv_set_pc [simp]: "queue_inv (set_pc i pc s) = queue_inv s"
  by (simp add: queue_inv_def)

lemma queue_inv_calls [simp]: "queue_inv (s\<lparr>calls := c\<rparr>) = queue_inv s"
  by (simp add: queue_inv_def)

lemma queue_inv_publish: "queue_inv s \<Longrightarrow> queue_inv (publish kws s)"
  by (simp add: queue_inv_def)

lemma sys_step_queue_inv: "sys_step s t \<Longrightarrow> queue_inv s \<Longrightarrow> queue_inv t"
proof (induction rule: sys_step.induct)
  case (click s g' r)
  then show ?case by (simp add: queue_inv_def)
next
  case (edit_factor s x)
  then show ?case by (simp add: queue_inv_def)
next
  case (dispatch s a q)
  then show ?case by (simp add: queue_inv_def)
qed (simp_all add: queue_inv_publish)

lemma sys_reach_invs: "sys_reach g s \<Longrightarrow> held_inv s \<and> queue_inv s"
proof (induction rule: sys_reach.induct)
  case init
  then show ?case by (simp add: held_inv_def queue_inv_def status_addr_def default_status_def)
next
  case (step s t)
  then show ?case using sys_step_held_inv sys_step_queue_inv by blast
qed

lemma click_demo:
  assumes "sys_reach g s" and "ui s = demo_gui"
  shows "sys_reach g (s\<lparr>workers := workers s @ [W_Read]\<rparr>)"
proof -
  have "button_enabled (ui s)" using assms(2) by (simp add: demo_gui_def gui_init_def)
  from sys_step.click [OF this] have "sys_step s (s\<lparr>ui := demo_gui, workers := workers s @ [W_Read]\<rparr>)"
    using assms(2) process_video_demo by simp
  moreover have "s\<lparr>ui := demo_gui, workers := workers s @ [W_Read]\<rparr> = s\<lparr>workers := workers s @ [W_Read]\<rparr>"
    using assms(2) by (cases s) simp
  ultimately show ?thesis using sys_reach.step [OF assms(1)] by simp
qed

lemma read_demo:
  assumes "sys_reach g s" and "ui s = demo_gui" and "i < length (workers s)"
    and "workers s ! i = W_Read"
  shows "sys_reach g ((set_pc i W_Guard s)\<lparr>calls := calls s @ [(''in.mp4'', ''out.mp4'', 2)]\<rparr>)"
  using assms(1) sys_step.read_args [OF assms(3,4)] assms(2) job_args_demo
  by (auto intro: sys_reach.step)

lemma demo_started:
  "\<exists>s. sys_reach demo_gui s \<and> workers s = [W_Makedirs] \<and> ui s = demo_gui \<and>
       queue s = [status_addr] \<and> seen s = [] \<and>
       log s = [apply_kwargs default_status start_fields] \<and>
       store s status_addr = apply_kwargs default_status start_fields"
proof -
  let ?s1 = "(sys_init demo_gui)\<lparr>workers := [W_Read]\<rparr>"
  have r1: "sys_reach demo_gui ?s1" using click_demo [OF sys_reach.init] by simp
  let ?s2 = "(set_pc 0 W_Guard ?s1)\<lparr>calls := [(''in.mp4'', ''out.mp4'', 2)]\<rparr>"
  have r2: "sys_reach demo_gui ?s2" using read_demo [OF r1, of 0] by simp
  let ?s3 = "set_pc 0 W_Start ?s2"
  have r3: "sys_reach demo_gui ?s3"
    by (rule sys_reach.step [OF r2 sys_step.guard_pass [of 0]])
       (simp_all add: set_pc_def status_addr_def default_status_def)
  let ?s4 = "set_pc 0 W_Makedirs (publish start_fields ?s3)"
  have r4: "sys_reach demo_gui ?s4"
    by (rule sys_reach.step [OF r3 sys_step.start [of 0]]) simp_all
  show ?thesis
    by (intro exI [of _ ?s4]) (simp add: r4)
qed

lemma code_run_steps:
  assumes "sys_reach g s" and "i < length (workers s)"
    and "workers s ! i = W_Step k" and "k \<le> 7"
  shows "\<exists>t. sys_reach g t \<and> workers t = (workers s)[i := W_Step 7] \<and>
             queue t = queue s @ replicate (7 - k) status_addr \<and> ui t = ui s"
  using assms
proof (induction "7 - k" arbitrary: s k)
  case 0
  then have k: "k = 7" by simp
  with "0.prems"(3) have "(workers s)[i := W_Step 7] = workers s" by (metis list_update_id)
  with "0.prems"(1) k show ?case by (intro exI [of _ s]) simp
next
  case (Suc n)
  then have k: "k < 7" by simp
  let ?s' = "set_pc i (W_Step (Suc k)) (publish (step_fields k) s)"
  have r: "sys_reach g ?s'"
    by (rule sys_reach.step [OF Suc.prems(1) sys_step.step_ok [OF Suc.prems(2,3) k]])
  have n: "n = 7 - Suc k" using Suc.hyps(2) by simp
  have "i < length (workers ?s')" "workers ?s' ! i = W_Step (Suc k)" "Suc k \<le> 7"
    using Suc.prems(2) k by simp_all
  from Suc.hyps(1) [OF n r this] obtain t where "sys_reach g t"
    and "workers t = (workers ?s')[i := W_Step 7]"
    and "queue t = queue ?s' @ replicate (7 - Suc k) status_addr" and "ui t = ui ?s'"
    by blast
  moreover have "status_addr # replicate (7 - Suc k) status_addr = replicate (7 - k) status_addr"
  proof -
    have "7 - k = Suc (7 - Suc k)" using k by arith
    then show ?thesis by (simp only: replicate_Suc)
  qed
  ultimately show ?case by (intro exI [of _ t]) simp
qed


subsection \<open>Races of the code\<close>

text \<open>
  C18. The in-flight guard is a check followed by a separate update: two clicks before
  the first snapshot reaches the GUI start two workers, and both pass the check, so two
  jobs run at once.
\<close>

theorem guard_race: "\<exists>s. sys_reach demo_gui s \<and> 2 \<le> n_running s"
proof -
  let ?s1 = "(sys_init demo_gui)\<lparr>workers := [W_Read]\<rparr>"
  have r1: "sys_reach demo_gui ?s1" using click_demo [OF sys_reach.init] by simp
  let ?s2 = "(sys_init demo_gui)\<lparr>workers := [W_Read, W_Read]\<rparr>"
  have r2: "sys_reach demo_gui ?s2" using click_demo [OF r1] by simp
  let ?args = "(''in.mp4'', ''out.mp4'', 2::real)"
  let ?s3 = "(sys_init demo_gui)\<lparr>workers := [W_Guard, W_Read], calls := [?args]\<rparr>"
  have r3: "sys_reach demo_gui ?s3" using read_demo [OF r2, of 0] by (simp add: set_pc_def)
  let ?s4 = "(sys_init demo_gui)\<lparr>workers := [W_Guard, W_Guard], calls := [?args, ?args]\<rparr>"
  have r4: "sys_reach demo_gui ?s4" using read_demo [OF r3, of 1] by (simp add: set_pc_def)
  let ?s5 = "(sys_init demo_gui)\<lparr>calls := [?args, ?args], workers := [W_Start, W_Guard]\<rparr>"
  have r5: "sys_reach demo_gui ?s5"
    using sys_reach.step [OF r4 sys_step.guard_pass [of 0]]
    by (simp add: set_pc_def status_addr_def default_status_def)
  let ?s6 = "(sys_init demo_gui)\<lparr>calls := [?args, ?args], workers := [W_Start, W_Start]\<rparr>"
  have r6: "sys_reach demo_gui ?s6"
    using sys_reach.step [OF r5 sys_step.guard_pass [of 1]]
    by (simp add: set_pc_def status_addr_def default_status_def)
  moreover have "n_running ?s6 = 2" by (simp add: n_running_def)
  ultimately show ?thesis by auto
qed

text \<open>
  C19. A status left in flight is always held by a worker: one still running its job, or
  one whose \<open>os.makedirs\<close> raised after the first update. So the processor rejects new
  jobs only while a job runs or after that escaped exception; a job that ends normally
  or fails inside the \<open>try\<close> never leaves it blocked.
\<close>

theorem status_in_flight_held:
  assumes "sys_reach g s" and "is_processing (store s status_addr)"
  shows "\<exists>w \<in> set (workers s). running w \<or> w = W_Makedirs_Failed"
proof -
  from sys_reach_invs [OF assms(1)] assms(2)
  have "0 < length (filter holds_status (workers s))" by (simp add: held_inv_def)
  then obtain w where "w \<in> set (filter holds_status (workers s))"
    by (metis length_greater_0_conv list.set_intros(1) neq_Nil_conv)
  then show ?thesis by (auto simp: holds_status_def)
qed

theorem status_in_flight_held_witness:
  "\<exists>s. sys_reach demo_gui s \<and> workers s = [W_Makedirs_Failed] \<and>
       is_processing (store s status_addr) \<and>
       (\<exists>w \<in> set (workers s). running w \<or> w = W_Makedirs_Failed)"
proof -
  obtain s where r: "sys_reach demo_gui s" and ws: "workers s = [W_Makedirs]"
    and st: "store s status_addr = apply_kwargs default_status start_fields"
    using demo_started by blast
  let ?t = "set_pc 0 W_Makedirs_Failed s"
  have rt: "sys_reach demo_gui ?t"
    by (rule sys_reach.step [OF r sys_step.makedirs_fail [of 0]]) (simp_all add: ws)
  have pt: "is_processing (store ?t status_addr)" using st by simp
  have "workers ?t = [W_Makedirs_Failed]" using ws by simp
  with rt pt status_in_flight_held [OF rt pt] show ?thesis by blast
qed

text \<open>
  C20. Because every queued event refers to the one mutable status object, events
  dispatched after a job has finished all read its final status: a single job, one
  click, shows the success dialog twice (and would show it once per queued event).
\<close>

theorem shared_status_duplicate_success:
  "\<exists>s. sys_reach demo_gui s \<and> workers s = [W_Done True] \<and>
       dialogs (ui s) = [Show_Info ''Success'' ''Video processing completed successfully!'',
                         Show_Info ''Success'' ''Video processing completed successfully!'']"
proof -
  obtain s where r: "sys_reach demo_gui s" and ws: "workers s = [W_Makedirs]"
    and us: "ui s = demo_gui" and qs: "queue s = [status_addr]"
    using demo_started by blast
  let ?s3 = "set_pc 0 (W_Step 0) s"
  have r3: "sys_reach demo_gui ?s3"
    by (rule sys_reach.step [OF r sys_step.makedirs_ok [of 0]]) (simp_all add: ws)
  obtain t where r4: "sys_reach demo_gui t" and wt: "workers t = [W_Step 7]"
    and qt: "queue t = [status_addr] @ replicate 7 status_addr" and ut: "ui t = demo_gui"
    using code_run_steps [OF r3, of 0 0] ws us qs by auto
  let ?s5 = "set_pc 0 (W_Done True) (publish complete_fields t)"
  have r5: "sys_reach demo_gui ?s5"
    by (rule sys_reach.step [OF r4 sys_step.complete [of 0]]) (simp_all add: wt)
  have done5: "\<not> is_processing (store ?s5 status_addr)" "progress (store ?s5 status_addr) = 100"
    by (simp_all add: complete_fields_def)
  have q5: "queue ?s5 = status_addr # status_addr # replicate 7 status_addr"
    using qt by (simp add: replicate_append_same)
  let ?s6 = "?s5\<lparr>ui := update_gui_status (store ?s5 status_addr) (ui ?s5),
                 queue := status_addr # replicate 7 status_addr,
                 seen := seen ?s5 @ [store ?s5 status_addr]\<rparr>"
  have r6: "sys_reach demo_gui ?s6"
    by (rule sys_reach.step [OF r5 sys_step.dispatch [OF q5]])
  let ?s7 = "?s6\<lparr>ui := update_gui_status (store ?s6 status_addr) (ui ?s6),
                 queue := replicate 7 status_addr,
                 seen := seen ?s6 @ [store ?s6 status_addr]\<rparr>"
  have r7: "sys_reach demo_gui ?s7"
    by (rule sys_reach.step [OF r6 sys_step.dispatch]) simp
  moreover have "workers ?s7 = [W_Done True]" using wt by simp
  moreover have "dialogs (ui ?s7) =
      [Show_Info ''Success'' ''Video processing completed successfully!'',
       Show_Info ''Success'' ''Video processing completed successfully!'']"
    using done5 ut by (simp add: update_gui_status_success show_dialog_def demo_gui_def gui_init_def)
  ultimately show ?thesis by blast
qed



text \<open>
  C22. \<open>process_video\<close> validates the factor, but \<open>_process_video_thread\<close> reads the
  entry again; an edit between the click and that read reaches \<open>amplify_audio\<close>
  unchecked, so the processor can be called with a factor that is not positive.
\<close>

theorem worker_rereads_factor:
  "\<exists>s. sys_reach demo_gui s \<and> (\<exists>inp out f. (inp, out, f) \<in> set (calls s) \<and> f \<le> 0)"
proof -
  let ?s1 = "(sys_init demo_gui)\<lparr>workers := [W_Read]\<rparr>"
  have r1: "sys_reach demo_gui ?s1" using click_demo [OF sys_reach.init] by simp
  let ?s2 = "?s1\<lparr>ui := demo_gui\<lparr>factor_entry := Some (-1)\<rparr>\<rparr>"
  have r2: "sys_reach demo_gui ?s2"
    using sys_reach.step [OF r1 sys_step.edit_factor [of ?s1 "Some (-1)"]] by simp
  have "job_args (ui ?s2) = Some (''in.mp4'', ''out.mp4'', -1)"
    by (simp add: job_args_def demo_gui_def gui_init_def)
  then have "sys_reach demo_gui ((set_pc 0 W_Guard ?s2)\<lparr>calls := [(''in.mp4'', ''out.mp4'', -1)]\<rparr>)"
    using sys_reach.step [OF r2 sys_step.read_args [of 0]] by simp
  then show ?thesis by fastforce
qed

end
