(* ===== verification/Spec2Isabelle.thy ===== *)
theory Spec2Isabelle
  imports System
begin

text \<open>
  \<^bold>\<open>A verification model of the Video Audio Amplifier.\<close>

  The program (src/src) has two parts. The backend (backend.py) holds a
  \<open>ProcessingStatus\<close> object and \<open>VideoProcessor.amplify_audio\<close>, which
  extracts the audio track of a video with moviepy, raises its gain with pydub,
  re-muxes it and cleans up a scratch directory \<open>temp_audio_processing\<close>; every
  change of the status is pushed to one registered callback. The frontend
  (frontend.py) is a Tk window: \<open>process_video\<close> validates the two paths and
  the factor and starts a thread running \<open>_process_video_thread\<close>; the
  callback \<open>_on_status_update\<close> queues \<open>_update_gui_status\<close> on the Tk loop
  with \<^verbatim>\<open>root.after\<close>, and that handler drives the button, the progress bar,
  the label and the result dialogs. app.py only builds the window.

  \<^bold>\<open>Theories.\<close>
  \<^item> Prelude: the simp collections, \<open>path = string\<close>, Python truthiness of an
    optional string, and list lemmas the components share.
  \<^item> Status: \<open>processing_status\<close> (the dataclass), the keyword updates of
    \<open>_update_status\<close> as a list of \<open>status_field\<close>s applied with \<open>setattr\<close>,
    and the \<open>video_processor\<close> record whose \<open>delivered\<close> list records every
    callback invocation with the status passed.
  \<^item> Filesystem: the part of the disk the backend touches: the work area (absent,
    a plain file, or a directory of entries that may be held open), the output
    files, and whether the working directory is writable;
    \<open>os.makedirs(exist_ok=True)\<close>, \<open>os.remove\<close>, \<open>os.rmdir\<close>,
    \<open>os.listdir\<close>, and the finally block as \<open>cleanup_work_area\<close>, all with
    their \<open>OSError\<close>s as values of \<open>os_error\<close>.
  \<^item> Processor: \<open>amplify_audio\<close> line by line over an interface record
    \<open>media_lib\<close> of the moviepy/pydub calls (type variables for clips and
    segments, each call returning an error message or a value): the guard, the
    start update, \<open>makedirs\<close>, the try block \<open>amplify_try\<close> with its seven
    progress updates (10, 20, 30, 50, 70, 80, 90), the except handler and the
    cleanup. \<open>demo_lib\<close> is a concrete library used by the witnesses.
  \<^item> Paths: CPython's posixpath \<open>basename\<close>, \<open>dirname\<close>, \<open>join\<close> and
    genericpath \<open>_splitext\<close> (its while loop as \<open>splitext_scan\<close>, a function
    with a termination measure), and the output name built by \<open>browse_input\<close>.
  \<^item> Gui: the widget state as the record \<open>gui\<close>, \<open>_update_gui_status\<close>,
    \<open>process_video\<close> (with \<open>DoubleVar.get\<close> as an optional real whose
    parse failure raises \<open>TclError\<close>), \<open>_process_video_thread\<close>'s argument
    reads and \<open>browse_input\<close>.
  \<^item> System: the threads, as the code runs them. An inductive step relation
    \<open>sys_step\<close> interleaves clicks, edits of the factor entry, Tk dispatches and the
    steps of any number of worker threads, each a program counter \<open>wpc\<close> through
    \<open>_process_video_thread\<close> and \<open>amplify_audio\<close>: the re-read of the Tk variables
    (\<open>job_args\<close>), the in-flight check, the first update, \<open>os.makedirs\<close> (which may
    raise, leaving the status in flight), the seven steps and the final update. The status
    object is one cell \<open>status_addr\<close> of an explicit store, and \<open>on_status_update\<close>
    queues that address, as \<open>root.after\<close> queues the object itself; \<open>sys_reach\<close> is
    the runs of \<open>app.main\<close> from \<open>sys_init\<close>.
  \<^item> Spec2Isabelle (this theory): the properties of the processor and the GUI
    together, a job's published statuses folded through \<open>update_gui_status\<close>.

  \<^bold>\<open>What is proved.\<close> C1--C8 (Processor): the published progress starts at 0,
  rises through the seven steps and ends at 100 on success or 0 on failure; the gain
  is \<open>10 * factor\<close> dB; a second call while a job runs returns False and
  publishes nothing; the final status is idle with the complete or the error fields;
  a video without audio fails with the code's message; cleanup removes the work area
  when nothing is held open and the directory could be created, and otherwise
  \<open>makedirs\<close> raises \<open>PermissionError\<close> out of the call; C2, C5 and C7 take
  the working directory to be writable; a held file makes \<open>os.rmdir\<close> raise out of the
  finally block after success was published; a failing \<open>makedirs\<close> leaves the
  processor busy for ever (a plain file at the path, or an unwritable working
  directory). C9--C12 (Gui): when a thread starts, the rejection
  dialogs, the \<open>TclError\<close> escape, the running display. C13--C14: the GUI
  after a whole job, and the silent failure of an empty error message. C15--C17
  (Paths): the suggested output name differs from the input, keeps the
  extension, and stays in the input's directory. C18--C22 (System): the race on the
  guard that lets two jobs run; that a status left in flight is always held by a running
  worker or one whose \<open>makedirs\<close> raised (rule induction over \<open>held_inv\<close>); the
  duplicated success dialog of the shared status; that every pending GUI call reads the
  latest status, one call per publication (rule induction over \<open>queue_inv\<close>); and that
  the worker's re-read of the factor lets an unvalidated factor reach \<open>amplify_audio\<close>.

  \<^bold>\<open>Bounds.\<close> The pipeline has exactly seven step updates, so a failure
  happens after \<open>k \<in> {1..7}\<close> of them; the lemmas enumerate these cases. No
  loop of the program is unbounded: the only loops are the keyword loop (a fold over
  a finite list), the removal loop over \<open>os.listdir\<close> (a fold) and the scan of
  \<open>_splitext\<close> (a function with a termination proof), so no fuel is used.

  \<^bold>\<open>Not modelled.\<close> What moviepy and pydub compute (only their interface
  and their errors); widget layout (\<open>create_widgets\<close>), the file dialogs of
  \<open>browse_output\<close>, and the Tk window of \<open>app.main\<close> beyond its event loop;
  Windows ntpath; infinite or NaN factors (the factor is a real); the observer
  raising. In System, \<open>makedirs\<close> and the media calls are abstracted to succeed or
  fail nondeterministically (Processor says when), the worker's factor is recorded but
  not used by the steps, and two concurrent jobs are not modelled sharing the work
  area.
\<close>

section \<open>The shell and the processor together\<close>

lemma running_snapshots_in_flight: "\<forall>s \<in> set (running_snapshots k). is_processing s"
  by (auto simp: running_snapshots_def)

lemma running_snapshots_last:
  "k \<in> {1..7} \<Longrightarrow>
   status_message (last (running_snapshots k)) \<noteq> ''Ready'' \<and>
   progress (last (running_snapshots k)) \<noteq> 0"
proof -
  assume "k \<in> {1..7}"
  then have "k \<in> {1, 2, 3, 4, 5, 6, 7}" by auto
  then show ?thesis by (auto simp: running_snapshots_def pipeline_steps_def)
qed

lemma fold_job_snapshots:
  "fold update_gui_status (running_snapshots k @ [s]) g =
     update_gui_status s (fold update_gui_status (running_snapshots k) g)"
  by simp

text \<open>
  C13. When the GUI is the registered observer and handles, in order, every snapshot one
  job publishes, it ends in the idle display (button enabled, bar at 0, label Ready)
  with exactly one new dialog: the success notice when the job completed, otherwise the
  error dialog with the job's error message, provided that message is not empty.
\<close>

theorem gui_after_job:
  assumes run: "amplify_audio lib inp out f vp w = (res, vp', w')"
    and idle: "\<not> is_processing (vp_status vp)" and observed: "vp_callback vp \<noteq> None"
    and dir: "makedirs_exist_ok w = Inr wd"
    and shown: "error_message (vp_status vp') \<noteq> Some []"
  shows "idle_display (fold update_gui_status (new_published vp vp') g) \<and>
         dialogs (fold update_gui_status (new_published vp vp') g) =
           dialogs g @ [if progress (vp_status vp') = 100
                        then Show_Info ''Success'' ''Video processing completed successfully!''
                        else Show_Error ''Error''
                               (''Error processing video: '' @ py_format (error_message (vp_status vp')))]"
proof -
  obtain k where k: "k \<in> {1..7}"
    and snaps: "new_published vp vp' = running_snapshots k @ [vp_status vp']"
    and fin: "vp_status vp' = \<lparr>is_processing = False, progress = 100,
                  status_message = ''Processing complete!'', error_message = None\<rparr> \<and> k = 7
            \<or> (\<exists>msg. vp_status vp' = \<lparr>is_processing = False, progress = 0,
                  status_message = ''Error occurred'', error_message = Some msg\<rparr>)"
    using amplify_audio_snapshots [OF run idle observed dir] by blast
  let ?g = "fold update_gui_status (running_snapshots k) g"
  have dg: "dialogs ?g = dialogs g"
    by (rule fold_running_dialogs [OF running_snapshots_in_flight])
  from fin show ?thesis
  proof
    assume c: "vp_status vp' = \<lparr>is_processing = False, progress = 100,
                  status_message = ''Processing complete!'', error_message = None\<rparr> \<and> k = 7"
    then show ?thesis
      using snaps dg by (simp add: update_gui_status_success idle_display_def show_dialog_def)
  next
    assume "\<exists>msg. vp_status vp' = \<lparr>is_processing = False, progress = 0,
                  status_message = ''Error occurred'', error_message = Some msg\<rparr>"
    then obtain msg where c: "vp_status vp' = \<lparr>is_processing = False, progress = 0,
                  status_message = ''Error occurred'', error_message = Some msg\<rparr>" by blast
    with shown have "msg \<noteq> []" by simp
    then show ?thesis
      using snaps dg c by (simp add: update_gui_status_error idle_display_def show_dialog_def)
  qed
qed

theorem gui_after_job_witness:
  "\<exists>res vp' w'.
     amplify_audio (demo_lib False) ''silent.mp4'' ''out.mp4'' 2 demo_vp fs_init = (res, vp', w') \<and>
     idle_display (fold update_gui_status (new_published demo_vp vp') gui_init) \<and>
     dialogs (fold update_gui_status (new_published demo_vp vp') gui_init) =
       dialogs gui_init @ [if progress (vp_status vp') = 100
                           then Show_Info ''Success'' ''Video processing completed successfully!''
                           else Show_Error ''Error''
                                  (''Error processing video: '' @ py_format (error_message (vp_status vp')))]"
proof -
  obtain res vp' w' where
    run: "amplify_audio (demo_lib False) ''silent.mp4'' ''out.mp4'' 2 demo_vp fs_init = (res, vp', w')"
    by (metis prod_cases3)
  have msg: "error_message (vp_status vp') = Some ''No audio found in input video''"
    using run by (auto simp: pipeline_defs demo_simps Let_def)
  have "idle_display (fold update_gui_status (new_published demo_vp vp') gui_init) \<and>
        dialogs (fold update_gui_status (new_published demo_vp vp') gui_init) =
          dialogs gui_init @ [if progress (vp_status vp') = 100
                              then Show_Info ''Success'' ''Video processing completed successfully!''
                              else Show_Error ''Error''
                                     (''Error processing video: '' @ py_format (error_message (vp_status vp')))]"
    by (rule gui_after_job [OF run]) (simp_all add: demo_simps makedirs_exist_ok_def msg)
  with run show ?thesis by blast
qed

text \<open>
  C14. When a job fails with an exception whose text is empty, the GUI handles its
  final snapshot by enabling the button only: no error dialog is shown and the display
  is not reset, the bar and the label still show the last step reached.
\<close>

theorem gui_after_job_silent_error:
  assumes run: "amplify_audio lib inp out f vp w = (res, vp', w')"
    and idle: "\<not> is_processing (vp_status vp)" and observed: "vp_callback vp \<noteq> None"
    and dir: "makedirs_exist_ok w = Inr wd"
    and silent: "error_message (vp_status vp') = Some []"
  shows "button_enabled (fold update_gui_status (new_published vp vp') g) \<and>
         \<not> idle_display (fold update_gui_status (new_published vp vp') g) \<and>
         dialogs (fold update_gui_status (new_published vp vp') g) = dialogs g"
proof -
  obtain k where k: "k \<in> {1..7}"
    and snaps: "new_published vp vp' = running_snapshots k @ [vp_status vp']"
    and fin: "vp_status vp' = \<lparr>is_processing = False, progress = 100,
                  status_message = ''Processing complete!'', error_message = None\<rparr> \<and> k = 7
            \<or> (\<exists>msg. vp_status vp' = \<lparr>is_processing = False, progress = 0,
                  status_message = ''Error occurred'', error_message = Some msg\<rparr>)"
    using amplify_audio_snapshots [OF run idle observed dir] by blast
  have c: "vp_status vp' = \<lparr>is_processing = False, progress = 0,
                  status_message = ''Error occurred'', error_message = Some []\<rparr>"
    using fin silent by auto
  let ?g = "fold update_gui_status (running_snapshots k) g"
  have ne: "running_snapshots k \<noteq> []" by (simp add: running_snapshots_def)
  have disp: "status_label ?g = status_message (last (running_snapshots k))"
    "progress_bar ?g = progress (last (running_snapshots k))"
    using fold_running_display [OF ne running_snapshots_in_flight] by simp_all
  have dg: "dialogs ?g = dialogs g"
    by (rule fold_running_dialogs [OF running_snapshots_in_flight])
  have "update_gui_status (vp_status vp') ?g = ?g\<lparr>button_enabled := True\<rparr>"
    using c by (simp add: update_gui_status_silent)
  then show ?thesis
    using snaps disp dg running_snapshots_last [OF k] by (simp add: idle_display_def)
qed


theorem gui_after_job_silent_error_witness:
  "\<exists>res vp' w'.
     amplify_audio (demo_lib False) ''broken.mp4'' ''out.mp4'' 2 demo_vp fs_init = (res, vp', w') \<and>
     button_enabled (fold update_gui_status (new_published demo_vp vp') gui_init) \<and>
     \<not> idle_display (fold update_gui_status (new_published demo_vp vp') gui_init) \<and>
     dialogs (fold update_gui_status (new_published demo_vp vp') gui_init) = dialogs gui_init"
proof -
  obtain res vp' w' where
    run: "amplify_audio (demo_lib False) ''broken.mp4'' ''out.mp4'' 2 demo_vp fs_init = (res, vp', w')"
    by (metis prod_cases3)
  have msg: "error_message (vp_status vp') = Some []"
    using run by (auto simp: pipeline_defs demo_simps Let_def)
  have "button_enabled (fold update_gui_status (new_published demo_vp vp') gui_init) \<and>
        \<not> idle_display (fold update_gui_status (new_published demo_vp vp') gui_init) \<and>
        dialogs (fold update_gui_status (new_published demo_vp vp') gui_init) = dialogs gui_init"
    by (rule gui_after_job_silent_error [OF run]) (simp_all add: demo_simps makedirs_exist_ok_def msg)
  with run show ?thesis by blast
qed

end
